theory Spec2Isabelle
  imports Main "HOL-Library.Char_ord" "HOL-Library.List_Lexorder"
begin

section \<open>JavaScript values\<close>

text \<open>
  The controller \<open>getItems\<close> (controllers/itemController.js) works on plain JavaScript
  values: query-string parameters, the filter and sort objects handed to Mongoose, lean
  documents, the cursor payload and the response body. One datatype covers them.

  \<^item> A finite number is \<open>Num m k\<close>, the decimal \<open>m / 10^k\<close>: a double is identified with
    its shortest decimal representation, which is what \<open>JSON.stringify\<close> prints and
    \<open>JSON.parse\<close> reads back. \<open>NaN\<close> and the two infinities are separate.
  \<^item> A string is the list of its UTF-8 bytes, so \<open>Buffer.from(s)\<close> is the identity on
    this representation.
  \<^item> \<open>Date t\<close> is a valid Date object with time value \<open>t\<close> (milliseconds since the epoch),
    \<open>InvalidDate\<close> the Date whose time value is NaN.
  \<^item> \<open>ObjectId h\<close> is a BSON ObjectId with hexadecimal form \<open>h\<close>.
  \<^item> \<open>Function src\<close> is a function object whose source text is \<open>src\<close>.
  \<^item> An object is the list of its own properties in the order of enumeration.
\<close>

datatype jsval =
    Undefined
  | Null
  | Bool bool
  | Num int nat
  | NaN
  | Infinity bool
  | Str string
  | Date int
  | InvalidDate
  | ObjectId string
  | Function string
  | Arr "jsval list"
  | Obj "(string \<times> jsval) list"

text \<open>
  What the program takes from its host, and this theory does not define:

  \<^item> \<open>date_parse\<close> is \<open>Date.parse\<close> (\<open>None\<close> is NaN), whose result is left to the
    implementation for strings outside the date-time format of the language;
  \<^item> \<open>builtin_get v k\<close> is the value of the property \<open>k\<close> of \<open>v\<close> when it is not an own
    property of a value parsed from JSON: one found on the prototype chain, or an index
    or the \<open>length\<close> of a string or an array, and \<open>undefined\<close> when there is none;
  \<^item> \<open>double_of m x\<close> is the Number that the decimal \<open>m * 10^x\<close> denotes: the nearest
    double (an infinity beyond the range), finite ones in the normal form of \<open>Num\<close>;
  \<^item> \<open>utf8_text\<close> is \<open>buf.toString('utf-8')\<close> on the bytes of a buffer: the identity
    on well-formed UTF-8, with U+FFFD in place of every ill-formed sequence.
\<close>

record host =
  date_parse :: "string \<Rightarrow> int option"
  builtin_get :: "jsval \<Rightarrow> string \<Rightarrow> jsval"
  double_of :: "int \<Rightarrow> int \<Rightarrow> jsval"
  utf8_text :: "string \<Rightarrow> string"

text \<open>\<open>o[k]\<close> for reading: \<open>None\<close> is the TypeError of reading a property of \<open>null\<close> or
  \<open>undefined\<close>. An own property of an object hides every other one.\<close>

fun getprop :: "host \<Rightarrow> jsval \<Rightarrow> string \<Rightarrow> jsval option" where
  "getprop h Undefined k = None"
| "getprop h Null k = None"
| "getprop h (Obj kvs) k =
     (case map_of kvs k of None \<Rightarrow> Some (builtin_get h (Obj kvs) k) | Some v \<Rightarrow> Some v)"
| "getprop h v k = Some (builtin_get h v k)"

section \<open>Decimal digits\<close>

text \<open>Character codes and the numbers read from digits are integers.\<close>

definition is_digit :: "char \<Rightarrow> bool" where
  "is_digit c = (48 \<le> (of_char c :: int) \<and> (of_char c :: int) \<le> 57)"

definition digit_val :: "char \<Rightarrow> int" where
  "digit_val c = of_char c - 48"

definition digit_char :: "int \<Rightarrow> char" where
  "digit_char d = char_of (48 + d)"

definition digits_val :: "string \<Rightarrow> int" where
  "digits_val ds = foldl (\<lambda>a c. a * 10 + digit_val c) 0 ds"

text \<open>\<open>show_digits k n\<close>: the last \<open>k\<close> decimal digits of \<open>n\<close>, zero-padded.\<close>

fun show_digits :: "nat \<Rightarrow> int \<Rightarrow> string" where
  "show_digits 0 n = []"
| "show_digits (Suc k) n = show_digits k (n div 10) @ [digit_char (n mod 10)]"

text \<open>The number of decimal digits of a natural number \<open>n\<close> (one for zero).\<close>

function num_digits :: "int \<Rightarrow> nat" where
  "num_digits n = (if n < 10 then 1 else Suc (num_digits (n div 10)))"
  by pat_completeness auto
termination
  by (relation "measure nat") auto

definition show_nat :: "int \<Rightarrow> string" where
  "show_nat n = show_digits (num_digits n) n"

section \<open>Objects\<close>

text \<open>
  The own properties of an ordinary object are enumerated with the integer indices first,
  in ascending order, and then the other names in the order of their creation. An index
  is the canonical decimal form of an integer below \<open>2^32 - 1\<close>.
\<close>

definition is_index :: "string \<Rightarrow> bool" where
  "is_index k =
     (k \<noteq> [] \<and> list_all is_digit k \<and> (k = ''0'' \<or> hd k \<noteq> CHR ''0'') \<and> length k \<le> 10
      \<and> digits_val k < 4294967295)"

definition precedes :: "string \<Rightarrow> string \<Rightarrow> bool" where
  "precedes k k' = (is_index k \<and> (\<not> is_index k' \<or> digits_val k < digits_val k'))"

fun replace_prop :: "string \<Rightarrow> jsval \<Rightarrow> (string \<times> jsval) list \<Rightarrow> (string \<times> jsval) list" where
  "replace_prop k v [] = []"
| "replace_prop k v (p # ps) = (if fst p = k then (k, v) # ps else p # replace_prop k v ps)"

fun insert_prop :: "string \<Rightarrow> jsval \<Rightarrow> (string \<times> jsval) list \<Rightarrow> (string \<times> jsval) list" where
  "insert_prop k v [] = [(k, v)]"
| "insert_prop k v (p # ps) =
     (if precedes k (fst p) then (k, v) # p # ps else p # insert_prop k v ps)"

text \<open>Defining the own property \<open>k\<close>: an existing property keeps its place.\<close>

definition assign :: "string \<Rightarrow> jsval \<Rightarrow> (string \<times> jsval) list \<Rightarrow> (string \<times> jsval) list" where
  "assign k v kvs = (if map_of kvs k = None then insert_prop k v kvs else replace_prop k v kvs)"

text \<open>
  The assignment \<open>o[k] = v\<close> on an ordinary object defines the own property, except for
  the name \<open>__proto__\<close> on an object without such an own property: that assignment goes
  to the setter inherited from \<open>Object.prototype\<close>, which ignores a value that is neither
  an object nor \<open>null\<close> and creates no property. (The controller assigns under a computed
  name only in its sort object, and numbers only; the change of prototype that an object
  value would cause is not modelled.)
\<close>

fun setprop :: "jsval \<Rightarrow> string \<Rightarrow> jsval \<Rightarrow> jsval" where
  "setprop (Obj kvs) k v =
     (if k = ''__proto__'' \<and> map_of kvs k = None then Obj kvs else Obj (assign k v kvs))"
| "setprop x k v = x"

text \<open>An object literal \<open>{k1: v1, k2: v2, ...}\<close> with plain or computed names: the
  properties are defined from left to right, a repeated name takes the later value. (No
  literal of the controller has the plain name \<open>__proto__\<close>, which would not define a
  property.)\<close>

definition object_literal :: "(string \<times> jsval) list \<Rightarrow> jsval" where
  "object_literal kvs = Obj (foldl (\<lambda>acc kv. assign (fst kv) (snd kv) acc) [] kvs)"

text \<open>Truthiness of a query parameter: \<open>undefined\<close> and the empty string are falsy, every
  other string is truthy (also \<open>"0"\<close> and \<open>"false"\<close>).\<close>

definition truthy :: "string option \<Rightarrow> bool" where
  "truthy p = (case p of None \<Rightarrow> False | Some s \<Rightarrow> s \<noteq> [])"

section \<open>Numbers as strings\<close>

text \<open>
  \<open>Number.prototype.toString\<close> in base 10, which \<open>JSON.stringify\<close> uses as well. With
  \<open>ds\<close> the significant digits of the number (no trailing zero) and \<open>n\<close> the position of
  the decimal point after the first digit of \<open>ds\<close>: plain notation for \<open>-6 < n \<le> 21\<close>,
  exponent notation otherwise.
\<close>

definition strip_trailing_zeros :: "string \<Rightarrow> string" where
  "strip_trailing_zeros ds = rev (dropWhile (\<lambda>c. c = CHR ''0'') (rev ds))"

definition show_exponent :: "string \<Rightarrow> int \<Rightarrow> string" where
  "show_exponent ds e =
     (if length ds = 1 then ds else hd ds # CHR ''.'' # tl ds)
     @ ''e'' @ (if 0 \<le> e then ''+'' else ''-'') @ show_nat \<bar>e\<bar>"

definition show_positional :: "string \<Rightarrow> int \<Rightarrow> string" where
  "show_positional ds n =
     (if int (length ds) \<le> n \<and> n \<le> 21 then ds @ replicate (nat (n - int (length ds))) (CHR ''0'')
      else if 0 < n \<and> n \<le> 21 then take (nat n) ds @ ''.'' @ drop (nat n) ds
      else if - 6 < n \<and> n \<le> 0 then ''0.'' @ replicate (nat (- n)) (CHR ''0'') @ ds
      else show_exponent ds (n - 1))"

definition show_num :: "int \<Rightarrow> nat \<Rightarrow> string" where
  "show_num m k =
     (if m = 0 then ''0''
      else (if m < 0 then ''-'' else [])
           @ show_positional (strip_trailing_zeros (show_nat \<bar>m\<bar>))
               (int (length (show_nat \<bar>m\<bar>)) - int k))"

section \<open>Base64 (Buffer)\<close>

text \<open>
  \<open>buf.toString('base64')\<close> is RFC 4648 with padding. \<open>Buffer.from(s, 'base64')\<close> is
  Node's lenient decoder: it accepts both the standard and the URL-safe alphabet, skips
  every character outside them, stops at the first \<open>=\<close>, and never throws.
\<close>

definition b64char :: "int \<Rightarrow> char" where
  "b64char n =
     (if n < 26 then char_of (65 + n)
      else if n < 52 then char_of (71 + n)
      else if n < 62 then char_of (n - 4)
      else if n = 62 then CHR ''+'' else CHR ''/'')"

definition unbase64 :: "char \<Rightarrow> int option" where
  "unbase64 c =
     (if 65 \<le> (of_char c :: int) \<and> (of_char c :: int) \<le> 90 then Some (of_char c - 65)
      else if 97 \<le> (of_char c :: int) \<and> (of_char c :: int) \<le> 122 then Some (of_char c - 71)
      else if 48 \<le> (of_char c :: int) \<and> (of_char c :: int) \<le> 57 then Some (of_char c + 4)
      else if c = CHR ''+'' \<or> c = CHR ''-'' then Some 62
      else if c = CHR ''/'' \<or> c = CHR ''_'' then Some 63
      else None)"

text \<open>Three bytes give four characters; a last group of one or two bytes is padded.\<close>

fun encode_groups :: "int list \<Rightarrow> string" where
  "encode_groups (a # b # c # rest) =
     [b64char (a div 4), b64char ((a mod 4) * 16 + b div 16),
      b64char ((b mod 16) * 4 + c div 64), b64char (c mod 64)] @ encode_groups rest"
| "encode_groups [a, b] =
     [b64char (a div 4), b64char ((a mod 4) * 16 + b div 16), b64char ((b mod 16) * 4), CHR ''='']"
| "encode_groups [a] = [b64char (a div 4), b64char ((a mod 4) * 16), CHR ''='', CHR ''='']"
| "encode_groups [] = []"

definition base64_encode :: "string \<Rightarrow> string" where
  "base64_encode s = encode_groups (map of_char s)"

text \<open>Four characters give three bytes; three trailing characters give two bytes, two give
  one, and a single trailing character gives none.\<close>

fun decode_groups :: "int list \<Rightarrow> string" where
  "decode_groups (p # q # r # s # rest) =
     [char_of (p * 4 + q div 16), char_of ((q mod 16) * 16 + r div 4), char_of ((r mod 4) * 64 + s)]
     @ decode_groups rest"
| "decode_groups [p, q, r] = [char_of (p * 4 + q div 16), char_of ((q mod 16) * 16 + r div 4)]"
| "decode_groups [p, q] = [char_of (p * 4 + q div 16)]"
| "decode_groups _ = []"

definition base64_decode :: "string \<Rightarrow> string" where
  "base64_decode s =
     decode_groups (List.map_filter unbase64 (takeWhile (\<lambda>c. c \<noteq> CHR ''='') s))"

section \<open>Dates\<close>

text \<open>
  \<open>Date.prototype.toISOString\<close> prints \<open>YYYY-MM-DDTHH:mm:ss.sssZ\<close> (with a sign and six
  digits for years outside 0..9999). The proleptic Gregorian calendar is computed from the
  day number by the usual era arithmetic.
\<close>

definition year_of_era :: "int \<Rightarrow> int" where
  "year_of_era doe = (doe - doe div 1460 + doe div 36524 - doe div 146096) div 365"

definition day_of_year :: "int \<Rightarrow> int \<Rightarrow> int" where
  "day_of_year doe yoe = doe - (365 * yoe + yoe div 4 - yoe div 100)"

definition month_index :: "int \<Rightarrow> int" where
  "month_index doy = (5 * doy + 2) div 153"

definition month_of :: "int \<Rightarrow> int" where
  "month_of mp = (if mp < 10 then mp + 3 else mp - 9)"

definition civil_of :: "int \<Rightarrow> int \<Rightarrow> int \<Rightarrow> int \<Rightarrow> int \<Rightarrow> int \<times> int \<times> int" where
  "civil_of era yoe doy mp m =
     (yoe + era * 400 + (if m \<le> 2 then 1 else 0), m, doy - (153 * mp + 2) div 5 + 1)"

definition civil_from_era :: "int \<Rightarrow> int \<Rightarrow> int \<Rightarrow> int \<Rightarrow> int \<times> int \<times> int" where
  "civil_from_era era doe yoe doy =
     civil_of era yoe doy (month_index doy) (month_of (month_index doy))"

text \<open>Year, month and day of a day number (days since 1970-01-01).\<close>

definition civil_from_days :: "int \<Rightarrow> int \<times> int \<times> int" where
  "civil_from_days z =
     civil_from_era ((z + 719468) div 146097) ((z + 719468) mod 146097)
       (year_of_era ((z + 719468) mod 146097))
       (day_of_year ((z + 719468) mod 146097) (year_of_era ((z + 719468) mod 146097)))"

definition days_of :: "int \<Rightarrow> int \<Rightarrow> int \<Rightarrow> int" where
  "days_of y m d =
     (y div 400) * 146097
     + ((y mod 400) * 365 + (y mod 400) div 4 - (y mod 400) div 100
        + ((153 * (if m > 2 then m - 3 else m + 9) + 2) div 5 + d - 1))
     - 719468"

text \<open>The day number of a year, month and day.\<close>

definition days_from_civil :: "int \<Rightarrow> int \<Rightarrow> int \<Rightarrow> int" where
  "days_from_civil y m d = days_of (if m \<le> 2 then y - 1 else y) m d"

definition show_year :: "int \<Rightarrow> string" where
  "show_year y =
     (if 0 \<le> y \<and> y \<le> 9999 then show_digits 4 y
      else (if y < 0 then CHR ''-'' else CHR ''+'') # show_digits 6 \<bar>y\<bar>)"

definition show_date :: "int \<times> int \<times> int \<Rightarrow> string" where
  "show_date ymd =
     show_year (fst ymd) @ ''-'' @ show_digits 2 (fst (snd ymd)) @ ''-''
     @ show_digits 2 (snd (snd ymd))"

definition show_time :: "int \<Rightarrow> string" where
  "show_time ms =
     show_digits 2 (ms div 3600000) @ '':'' @ show_digits 2 (ms div 60000 mod 60) @ '':''
     @ show_digits 2 (ms div 1000 mod 60) @ ''.'' @ show_digits 3 (ms mod 1000)"

definition toISOString :: "int \<Rightarrow> string" where
  "toISOString t =
     show_date (civil_from_days (t div 86400000)) @ ''T'' @ show_time (t mod 86400000) @ ''Z''"

text \<open>
  The reader of the format that \<open>toISOString\<close> prints. Every host's \<open>Date.parse\<close> reads
  this format so; what it does on other strings is the host's.
\<close>

fun read_year :: "string \<Rightarrow> (int \<times> string) option" where
  "read_year [] = None"
| "read_year (c # cs) =
     (if c = CHR ''+'' \<or> c = CHR ''-'' then
        (if 6 \<le> length cs \<and> list_all is_digit (take 6 cs)
         then Some ((if c = CHR ''-'' then - 1 else 1) * digits_val (take 6 cs), drop 6 cs)
         else None)
      else if 4 \<le> length (c # cs) \<and> list_all is_digit (take 4 (c # cs))
      then Some (digits_val (take 4 (c # cs)), drop 4 (c # cs))
      else None)"

text \<open>\<open>read_field sep n\<close> reads the separator and then exactly \<open>n\<close> digits.\<close>

fun read_field :: "char \<Rightarrow> nat \<Rightarrow> string \<Rightarrow> (int \<times> string) option" where
  "read_field sep n [] = None"
| "read_field sep n (c # cs) =
     (if c = sep \<and> n \<le> length cs \<and> list_all is_digit (take n cs)
      then Some (digits_val (take n cs), drop n cs) else None)"

definition iso_valid :: "int \<Rightarrow> int \<Rightarrow> int \<Rightarrow> int \<Rightarrow> int \<Rightarrow> int \<Rightarrow> bool" where
  "iso_valid y mo d h mi sec =
     (1 \<le> mo \<and> mo \<le> 12 \<and> 1 \<le> d \<and> h < 24 \<and> mi < 60 \<and> sec < 60
      \<and> civil_from_days (days_from_civil y mo d) = (y, mo, d))"

definition iso_value :: "int \<Rightarrow> int \<Rightarrow> int \<Rightarrow> int \<Rightarrow> int \<Rightarrow> int \<Rightarrow> int \<Rightarrow> int" where
  "iso_value y mo d h mi sec ms =
     days_from_civil y mo d * 86400000 + ((h * 60 + mi) * 60 + sec) * 1000 + ms"

text \<open>The time value of the fields read, when they are followed by \<open>Z\<close> alone and are in
  range.\<close>

fun iso_time :: "int \<Rightarrow> int \<Rightarrow> int \<Rightarrow> int \<Rightarrow> int \<Rightarrow> int \<Rightarrow> int \<Rightarrow> string \<Rightarrow> int option" where
  "iso_time y mo d h mi sec ms [] = None"
| "iso_time y mo d h mi sec ms (z # rest) =
     (if z = CHR ''Z'' \<and> rest = [] \<and> iso_valid y mo d h mi sec
      then Some (iso_value y mo d h mi sec ms) else None)"

definition parse_iso :: "string \<Rightarrow> int option" where
  "parse_iso s =
     (case read_year s of None \<Rightarrow> None | Some (y, s1) \<Rightarrow>
     (case read_field (CHR ''-'') 2 s1 of None \<Rightarrow> None | Some (mo, s2) \<Rightarrow>
     (case read_field (CHR ''-'') 2 s2 of None \<Rightarrow> None | Some (d, s3) \<Rightarrow>
     (case read_field (CHR ''T'') 2 s3 of None \<Rightarrow> None | Some (h, s4) \<Rightarrow>
     (case read_field (CHR '':'') 2 s4 of None \<Rightarrow> None | Some (mi, s5) \<Rightarrow>
     (case read_field (CHR '':'') 2 s5 of None \<Rightarrow> None | Some (sec, s6) \<Rightarrow>
     (case read_field (CHR ''.'') 3 s6 of None \<Rightarrow> None | Some (ms, s7) \<Rightarrow>
        iso_time y mo d h mi sec ms s7)))))))"

text \<open>The integer part of \<open>m / 10^k\<close>, rounding towards zero.\<close>

definition trunc_num :: "int \<Rightarrow> nat \<Rightarrow> int" where
  "trunc_num m k = (if m < 0 then - (\<bar>m\<bar> div 10 ^ k) else m div 10 ^ k)"

text \<open>A time value outside the range of a Date gives the invalid Date.\<close>

definition time_clip :: "int \<Rightarrow> jsval" where
  "time_clip t = (if \<bar>t\<bar> \<le> 8640000000000000 then Date t else InvalidDate)"

definition date_of_string :: "host \<Rightarrow> string \<Rightarrow> jsval" where
  "date_of_string h s = (case date_parse h s of None \<Rightarrow> InvalidDate | Some t \<Rightarrow> time_clip t)"

text \<open>
  The conversion of a value to a string, \<open>None\<close> being a TypeError. An array is joined:
  \<open>undefined\<close> and \<open>null\<close> elements give the empty string. An object parsed from JSON
  inherits \<open>toString\<close> from \<open>Object.prototype\<close>, unless it has an own property of that name:
  such a property is never callable, the inherited \<open>valueOf\<close> returns the object itself, and
  the conversion throws. (A Date does not occur where this conversion is applied; its string
  form depends on the time zone and is given as the ISO form here.)
\<close>

fun to_string :: "jsval \<Rightarrow> string option"
  and join_elems :: "jsval list \<Rightarrow> string option" where
  "to_string Undefined = Some ''undefined''"
| "to_string Null = Some ''null''"
| "to_string (Bool b) = Some (if b then ''true'' else ''false'')"
| "to_string (Num m k) = Some (show_num m k)"
| "to_string NaN = Some ''NaN''"
| "to_string (Infinity b) = Some (if b then ''Infinity'' else ''-Infinity'')"
| "to_string (Str s) = Some s"
| "to_string (Date t) = Some (toISOString t)"
| "to_string InvalidDate = Some ''Invalid Date''"
| "to_string (ObjectId x) = Some x"
| "to_string (Function src) = Some src"
| "to_string (Arr xs) = join_elems xs"
| "to_string (Obj kvs) = (if map_of kvs ''toString'' = None then Some ''[object Object]'' else None)"
| "join_elems [] = Some []"
| "join_elems (x # xs) =
     (case (if x = Undefined \<or> x = Null then Some [] else to_string x) of
        None \<Rightarrow> None
      | Some s \<Rightarrow>
          (case join_elems xs of
             None \<Rightarrow> None
           | Some r \<Rightarrow> Some (if xs = [] then s else s @ '','' @ r)))"

text \<open>
  \<open>new Date(v)\<close>; \<open>None\<close> is the TypeError of a value that has no primitive form. A number
  is a time value, a string is parsed, an array or an object is parsed in its string form.
\<close>

fun newDate :: "host \<Rightarrow> jsval \<Rightarrow> jsval option" where
  "newDate h Undefined = Some InvalidDate"
| "newDate h Null = Some (Date 0)"
| "newDate h (Bool b) = Some (Date (if b then 1 else 0))"
| "newDate h (Num m k) = Some (time_clip (trunc_num m k))"
| "newDate h NaN = Some InvalidDate"
| "newDate h (Infinity b) = Some InvalidDate"
| "newDate h (Date t) = Some (Date t)"
| "newDate h InvalidDate = Some InvalidDate"
| "newDate h v = map_option (date_of_string h) (to_string v)"

section \<open>JSON\<close>

subsection \<open>\<open>JSON.stringify\<close>\<close>

definition hex_char :: "int \<Rightarrow> char" where
  "hex_char d = (if d < 10 then char_of (48 + d) else char_of (87 + d))"

definition escape_char :: "char \<Rightarrow> string" where
  "escape_char c =
     (if c = CHR 0x22 then [CHR 0x5C, CHR 0x22]
      else if c = CHR 0x5C then [CHR 0x5C, CHR 0x5C]
      else if c = CHR 0x08 then [CHR 0x5C, CHR ''b'']
      else if c = CHR 0x09 then [CHR 0x5C, CHR ''t'']
      else if c = CHR 0x0A then [CHR 0x5C, CHR ''n'']
      else if c = CHR 0x0C then [CHR 0x5C, CHR ''f'']
      else if c = CHR 0x0D then [CHR 0x5C, CHR ''r'']
      else if (of_char c :: int) < 32
      then [CHR 0x5C, CHR ''u'', CHR ''0'', CHR ''0'', hex_char (of_char c div 16), hex_char (of_char c mod 16)]
      else [c])"

definition quote :: "string \<Rightarrow> string" where
  "quote s = CHR 0x22 # concat (map escape_char s) @ [CHR 0x22]"

fun commas :: "string list \<Rightarrow> string" where
  "commas [] = []"
| "commas [x] = x"
| "commas (x # y # zs) = x @ '','' @ commas (y # zs)"

text \<open>
  \<open>None\<close> is the result \<open>undefined\<close>, which a function gives as well. A Date and an
  ObjectId print through their \<open>toJSON\<close>; a number that is not finite prints as \<open>null\<close>;
  inside an array \<open>undefined\<close> prints as \<open>null\<close>, inside an object the property is left out.
\<close>

fun stringify :: "jsval \<Rightarrow> string option"
  and stringify_elems :: "jsval list \<Rightarrow> string list"
  and stringify_members :: "(string \<times> jsval) list \<Rightarrow> string list" where
  "stringify Undefined = None"
| "stringify Null = Some ''null''"
| "stringify (Bool b) = Some (if b then ''true'' else ''false'')"
| "stringify (Num m k) = Some (show_num m k)"
| "stringify NaN = Some ''null''"
| "stringify (Infinity b) = Some ''null''"
| "stringify (Str s) = Some (quote s)"
| "stringify (Date t) = Some (quote (toISOString t))"
| "stringify InvalidDate = Some ''null''"
| "stringify (ObjectId x) = Some (quote x)"
| "stringify (Function src) = None"
| "stringify (Arr xs) = Some (''['' @ commas (stringify_elems xs) @ '']'')"
| "stringify (Obj kvs) = Some (''{'' @ commas (stringify_members kvs) @ ''}'')"
| "stringify_elems [] = []"
| "stringify_elems (x # xs) =
     (case stringify x of None \<Rightarrow> ''null'' | Some s \<Rightarrow> s) # stringify_elems xs"
| "stringify_members [] = []"
| "stringify_members (kv # kvs) =
     (case stringify (snd kv) of
        None \<Rightarrow> stringify_members kvs
      | Some s \<Rightarrow> (quote (fst kv) @ '':'' @ s) # stringify_members kvs)"

subsection \<open>\<open>JSON.parse\<close>: tokens\<close>

text \<open>
  \<open>JSON.parse\<close> is split into the lexical grammar (tokens separated by optional white
  space) and the syntactic grammar over tokens. \<open>None\<close> is the SyntaxError.
\<close>

datatype token = LBrace | RBrace | LBracket | RBracket | Comma | Colon | Lit jsval

definition is_ws :: "char \<Rightarrow> bool" where
  "is_ws c = (c = CHR '' '' \<or> c = CHR 0x09 \<or> c = CHR 0x0A \<or> c = CHR 0x0D)"

definition hex_val :: "char \<Rightarrow> int option" where
  "hex_val c =
     (if 48 \<le> (of_char c :: int) \<and> (of_char c :: int) \<le> 57 then Some (of_char c - 48)
      else if 97 \<le> (of_char c :: int) \<and> (of_char c :: int) \<le> 102 then Some (of_char c - 87)
      else if 65 \<le> (of_char c :: int) \<and> (of_char c :: int) \<le> 70 then Some (of_char c - 55)
      else None)"

definition hex4 :: "char \<Rightarrow> char \<Rightarrow> char \<Rightarrow> char \<Rightarrow> int option" where
  "hex4 a b c d =
     (case (hex_val a, hex_val b, hex_val c, hex_val d) of
        (Some p, Some q, Some r, Some s) \<Rightarrow> Some (((p * 16 + q) * 16 + r) * 16 + s)
      | _ \<Rightarrow> None)"

text \<open>The UTF-8 bytes of a code point. (A surrogate that is not part of a pair keeps the
  three-byte form of its code unit.)\<close>

definition utf8 :: "int \<Rightarrow> string" where
  "utf8 n =
     (if n < 128 then [char_of n]
      else if n < 2048 then [char_of (192 + n div 64), char_of (128 + n mod 64)]
      else if n < 65536
      then [char_of (224 + n div 4096), char_of (128 + n div 64 mod 64), char_of (128 + n mod 64)]
      else [char_of (240 + n div 262144), char_of (128 + n div 4096 mod 64),
            char_of (128 + n div 64 mod 64), char_of (128 + n mod 64)])"

definition unescape :: "char \<Rightarrow> char option" where
  "unescape e =
     (if e = CHR 0x22 \<or> e = CHR 0x5C \<or> e = CHR ''/'' then Some e
      else if e = CHR ''b'' then Some (CHR 0x08)
      else if e = CHR ''f'' then Some (CHR 0x0C)
      else if e = CHR ''n'' then Some (CHR 0x0A)
      else if e = CHR ''r'' then Some (CHR 0x0D)
      else if e = CHR ''t'' then Some (CHR 0x09)
      else None)"

text \<open>\<open>lex_string\<close> reads the rest of a string literal, after its opening quote, and
  returns the string denoted and the input after the closing quote.\<close>

fun lex_string :: "string \<Rightarrow> (string \<times> string) option" where
  "lex_string [] = None"
| "lex_string (c # cs) =
     (if c = CHR 0x22 then Some ([], cs)
      else if c = CHR 0x5C then
        (case cs of
           [] \<Rightarrow> None
         | e # es \<Rightarrow>
             if e = CHR ''u'' then
               (case es of
                  h1 # h2 # h3 # h4 # rest \<Rightarrow>
                    (case hex4 h1 h2 h3 h4 of
                       None \<Rightarrow> None
                     | Some n \<Rightarrow>
                         (case lex_string rest of
                            None \<Rightarrow> None
                          | Some (s, r) \<Rightarrow> Some (utf8 n @ s, r)))
                | _ \<Rightarrow> None)
             else
               (case unescape e of
                  None \<Rightarrow> None
                | Some x \<Rightarrow>
                    (case lex_string es of
                       None \<Rightarrow> None
                     | Some (s, r) \<Rightarrow> Some (x # s, r))))
      else if (of_char c :: int) < 32 then None
      else (case lex_string cs of None \<Rightarrow> None | Some (s, r) \<Rightarrow> Some (c # s, r)))"

text \<open>
  Two escapes that give a high and then a low surrogate denote one code point: the two
  three-byte forms are replaced by the four bytes of the code point.
\<close>

definition surrogate_pair :: "int \<Rightarrow> int \<Rightarrow> int \<Rightarrow> int \<Rightarrow> int \<Rightarrow> int \<Rightarrow> bool" where
  "surrogate_pair a b c d e f =
     (a = 237 \<and> 160 \<le> b \<and> b \<le> 175 \<and> 128 \<le> c \<and> c \<le> 191
      \<and> d = 237 \<and> 176 \<le> e \<and> e \<le> 191 \<and> 128 \<le> f \<and> f \<le> 191)"

definition pair_code :: "int \<Rightarrow> int \<Rightarrow> int \<Rightarrow> int \<Rightarrow> int" where
  "pair_code b c e f = 65536 + ((b - 160) * 64 + (c - 128)) * 1024 + ((e - 176) * 64 + (f - 128))"

fun combine_surrogates :: "string \<Rightarrow> string" where
  "combine_surrogates (a # b # c # d # e # f # rest) =
     (if surrogate_pair (of_char a) (of_char b) (of_char c) (of_char d) (of_char e) (of_char f)
      then utf8 (pair_code (of_char b) (of_char c) (of_char e) (of_char f)) @ combine_surrogates rest
      else a # combine_surrogates (b # c # d # e # f # rest))"
| "combine_surrogates (a # rest) = a # combine_surrogates rest"
| "combine_surrogates [] = []"

text \<open>A number literal: \<open>-? int frac? exp?\<close>, without superfluous leading zeros. The
  lexer keeps the decimal \<open>m * 10^x\<close> that the literal writes, in the normal form of \<open>Num\<close>
  (no trailing zero in the fraction).\<close>

fun strip_zeros :: "int \<Rightarrow> nat \<Rightarrow> jsval" where
  "strip_zeros m 0 = Num m 0"
| "strip_zeros m (Suc k) = (if m mod 10 = 0 then strip_zeros (m div 10) k else Num m (Suc k))"

definition decimal :: "int \<Rightarrow> int \<Rightarrow> jsval" where
  "decimal m x = (if 0 \<le> x then Num (m * 10 ^ nat x) 0 else strip_zeros m (nat (- x)))"

definition lex_frac :: "string \<Rightarrow> (string \<times> string) option" where
  "lex_frac s =
     (case s of
        [] \<Rightarrow> Some ([], [])
      | c # cs \<Rightarrow>
          if c = CHR ''.'' then
            (if takeWhile is_digit cs = [] then None
             else Some (takeWhile is_digit cs, dropWhile is_digit cs))
          else Some ([], s))"

definition lex_sign :: "string \<Rightarrow> int \<times> string" where
  "lex_sign s =
     (case s of
        [] \<Rightarrow> (1, [])
      | c # cs \<Rightarrow> if c = CHR ''-'' then (- 1, cs) else if c = CHR ''+'' then (1, cs) else (1, s))"

definition lex_exp :: "string \<Rightarrow> (int \<times> string) option" where
  "lex_exp s =
     (case s of
        [] \<Rightarrow> Some (0, [])
      | c # cs \<Rightarrow>
          if c = CHR ''e'' \<or> c = CHR ''E'' then
            (let ds = snd (lex_sign cs) in
             if takeWhile is_digit ds = [] then None
             else Some (fst (lex_sign cs) * digits_val (takeWhile is_digit ds),
                        dropWhile is_digit ds))
          else Some (0, s))"

definition lex_number :: "string \<Rightarrow> (jsval \<times> string) option" where
  "lex_number s =
     (let neg = (s \<noteq> [] \<and> hd s = CHR ''-'');
          s1 = (if neg then tl s else s);
          ip = takeWhile is_digit s1
      in if ip = [] \<or> (hd ip = CHR ''0'' \<and> 1 < length ip) then None
         else
           (case lex_frac (dropWhile is_digit s1) of
              None \<Rightarrow> None
            | Some (fp, s2) \<Rightarrow>
                (case lex_exp s2 of
                   None \<Rightarrow> None
                 | Some (e, s3) \<Rightarrow>
                     Some (decimal ((if neg then - 1 else 1) * digits_val (ip @ fp))
                                   (e - int (length fp)), s3))))"

text \<open>\<open>next_token\<close> reads one token at the head of the input, which is not white space.\<close>

definition next_token :: "string \<Rightarrow> (token \<times> string) option" where
  "next_token s =
     (case s of
        [] \<Rightarrow> None
      | c # cs \<Rightarrow>
          if c = CHR ''{'' then Some (LBrace, cs)
          else if c = CHR ''}'' then Some (RBrace, cs)
          else if c = CHR ''['' then Some (LBracket, cs)
          else if c = CHR '']'' then Some (RBracket, cs)
          else if c = CHR '','' then Some (Comma, cs)
          else if c = CHR '':'' then Some (Colon, cs)
          else if c = CHR 0x22 then
            (case lex_string cs of
               None \<Rightarrow> None
             | Some (x, rest) \<Rightarrow> Some (Lit (Str (combine_surrogates x)), rest))
          else if c = CHR ''-'' \<or> is_digit c then
            (case lex_number s of None \<Rightarrow> None | Some (n, rest) \<Rightarrow> Some (Lit n, rest))
          else if take 4 s = ''true'' then Some (Lit (Bool True), drop 4 s)
          else if take 5 s = ''false'' then Some (Lit (Bool False), drop 5 s)
          else if take 4 s = ''null'' then Some (Lit Null, drop 4 s)
          else None)"

function lex :: "string \<Rightarrow> token list option" where
  "lex s =
     (case dropWhile is_ws s of
        [] \<Rightarrow> Some []
      | c # cs \<Rightarrow>
          (case next_token (c # cs) of
             None \<Rightarrow> None
           | Some (t, rest) \<Rightarrow> map_option ((#) t) (lex rest)))"
  by pat_completeness auto
termination
proof -
  have str: "length r < length cs" if "lex_string cs = Some (s, r)" for cs s r
    using that
  proof (induction cs arbitrary: s r rule: lex_string.induct)
    case 1
    then show ?case by simp
  next
    case (2 c cs)
    show ?case
      using "2.prems" "2.IH"
      apply (simp split: if_splits list.splits option.splits prod.splits)
      apply fastforce+
      done
  qed
  have frac: "length r \<le> length s" if "lex_frac s = Some (fp, r)" for s fp r
    using that
    by (auto simp: lex_frac_def length_dropWhile_le le_SucI split: list.splits if_splits)
  have sign: "length (snd (lex_sign s)) \<le> length s" for s
    by (auto simp: lex_sign_def split: list.splits)
  have exp: "length r \<le> length s" if a: "lex_exp s = Some (e, r)" for s e r
  proof (cases s)
    case Nil
    with a show ?thesis by (simp add: lex_exp_def)
  next
    case (Cons c cs)
    have "length (dropWhile is_digit (snd (lex_sign cs))) \<le> length cs"
      using length_dropWhile_le [of is_digit "snd (lex_sign cs)"] sign [of cs] by linarith
    with a Cons show ?thesis
      by (auto simp: lex_exp_def Let_def split: if_splits)
  qed
  have shorter: "length (dropWhile P xs) < length xs" if "takeWhile P xs \<noteq> []"
    for P :: "char \<Rightarrow> bool" and xs
    using that
    by (induction xs) (auto simp: le_imp_less_Suc length_dropWhile_le split: if_splits)
  have num: "length r < length s" if a: "lex_number s = Some (v, r)" for s v r
  proof -
    define s1 where "s1 = (if s \<noteq> [] \<and> hd s = CHR ''-'' then tl s else s)"
    have s1: "length s1 \<le> length s" by (simp add: s1_def)
    from a have ne: "takeWhile is_digit s1 \<noteq> []"
      by (auto simp: lex_number_def Let_def s1_def split: if_splits)
    from a obtain fp s2 e where f: "lex_frac (dropWhile is_digit s1) = Some (fp, s2)"
      and e: "lex_exp s2 = Some (e, r)"
      by (auto simp: lex_number_def Let_def s1_def split: if_splits option.splits)
    from shorter [OF ne] frac [OF f] exp [OF e] s1
    show ?thesis by linarith
  qed
  have tok: "length r < length s" if a: "next_token s = Some (t, r)" for s t r
  proof (cases s)
    case Nil
    with a show ?thesis by (simp add: next_token_def)
  next
    case (Cons c cs)
    show ?thesis
    proof (cases "c = CHR 0x22")
      case True
      with a Cons have "(case lex_string cs of None \<Rightarrow> None
          | Some (x, rest) \<Rightarrow> Some (Lit (Str (combine_surrogates x)), rest)) = Some (t, r)"
        by (simp add: next_token_def)
      then obtain x where "lex_string cs = Some (x, r)"
        by (cases "lex_string cs") auto
      from str [OF this] Cons show ?thesis by simp
    next
      case False
      show ?thesis
      proof (cases "c = CHR ''-'' \<or> is_digit c")
        case True
        with a Cons False have "(case lex_number s of None \<Rightarrow> None
            | Some (n, rest) \<Rightarrow> Some (Lit n, rest)) = Some (t, r)"
          unfolding next_token_def
          by (simp only: list.case if_True if_False split: if_split_asm)
            (simp_all add: is_digit_def)
        then obtain v where "lex_number s = Some (v, r)"
          by (cases "lex_number s") auto
        from num [OF this] show ?thesis .
      next
        case nonum: False
        have d4: "length (drop 4 (c # cs)) \<le> length cs" by simp
        have d5: "length (drop 5 (c # cs)) \<le> length cs" by simp
        from a Cons False nonum have "r = cs \<or> r = drop 4 (c # cs) \<or> r = drop 5 (c # cs)"
          unfolding next_token_def
          by (simp only: list.case if_False split: if_split_asm)
            (simp_all only: option.inject prod.inject option.distinct, blast+)
        with d4 d5 Cons show ?thesis by auto
      qed
    qed
  qed
  show ?thesis
  proof (relation "measure length")
    show "wf (measure length)" by simp
  next
    fix s :: string and c cs x2 t rest
    assume d: "dropWhile is_ws s = c # cs" and n: "next_token (c # cs) = Some x2"
      and x: "(t, rest) = x2"
    from n x have "length rest < length (c # cs)" using tok [of "c # cs" t rest] by simp
    moreover have "length (dropWhile is_ws s) \<le> length s" by (rule length_dropWhile_le)
    ultimately show "(rest, s) \<in> measure length" using d by simp
  qed
qed

subsection \<open>\<open>JSON.parse\<close>: grammar\<close>

text \<open>
  The grammar of JSON values over tokens, as a pushdown recogniser that builds the value.
  The stack holds the containers under construction; \<open>InMember kvs k\<close> is an object whose
  property \<open>k\<close> awaits its value. A property is defined as an own property (also under the
  name \<open>__proto__\<close>); a repeated name overwrites the earlier value and keeps its place.
\<close>

datatype frame = InArr "jsval list" | InObj "(string \<times> jsval) list" | InMember "(string \<times> jsval) list" string

datatype pstate =
    ExpectValue "frame list"
  | ExpectValueOrEnd "frame list"
  | ExpectKeyOrEnd "frame list"
  | ExpectKey "frame list"
  | ExpectColon "frame list"
  | AfterValue "frame list"
  | Finished jsval

text \<open>A completed value goes to the innermost open container, or is the result.\<close>

fun reduce :: "jsval \<Rightarrow> frame list \<Rightarrow> pstate option" where
  "reduce v [] = Some (Finished v)"
| "reduce v (InArr xs # st) = Some (AfterValue (InArr (xs @ [v]) # st))"
| "reduce v (InMember kvs k # st) = Some (AfterValue (InObj (assign k v kvs) # st))"
| "reduce v (InObj kvs # st) = None"

definition start_value :: "token \<Rightarrow> frame list \<Rightarrow> pstate option" where
  "start_value t st =
     (case t of
        Lit v \<Rightarrow> reduce v st
      | LBracket \<Rightarrow> Some (ExpectValueOrEnd (InArr [] # st))
      | LBrace \<Rightarrow> Some (ExpectKeyOrEnd (InObj [] # st))
      | _ \<Rightarrow> None)"

fun close_array :: "frame list \<Rightarrow> pstate option" where
  "close_array (InArr xs # st) = reduce (Arr xs) st"
| "close_array st = None"

fun close_object :: "frame list \<Rightarrow> pstate option" where
  "close_object (InObj kvs # st) = reduce (Obj kvs) st"
| "close_object st = None"

fun open_member :: "token \<Rightarrow> frame list \<Rightarrow> pstate option" where
  "open_member (Lit (Str k)) (InObj kvs # st) = Some (ExpectColon (InMember kvs k # st))"
| "open_member t st = None"

fun after_comma :: "frame list \<Rightarrow> pstate option" where
  "after_comma (InArr xs # st) = Some (ExpectValue (InArr xs # st))"
| "after_comma (InObj kvs # st) = Some (ExpectKey (InObj kvs # st))"
| "after_comma st = None"

definition step :: "pstate \<Rightarrow> token \<Rightarrow> pstate option" where
  "step s t =
     (case s of
        ExpectValue st \<Rightarrow> start_value t st
      | ExpectValueOrEnd st \<Rightarrow> if t = RBracket then close_array st else start_value t st
      | ExpectKeyOrEnd st \<Rightarrow> if t = RBrace then close_object st else open_member t st
      | ExpectKey st \<Rightarrow> open_member t st
      | ExpectColon st \<Rightarrow> if t = Colon then Some (ExpectValue st) else None
      | AfterValue st \<Rightarrow>
          if t = Comma then after_comma st
          else if t = RBracket then close_array st
          else if t = RBrace then close_object st
          else None
      | Finished v \<Rightarrow> None)"

fun run :: "pstate \<Rightarrow> token list \<Rightarrow> pstate option" where
  "run s [] = Some s"
| "run s (t # ts) = (case step s t of None \<Rightarrow> None | Some s' \<Rightarrow> run s' ts)"

definition parse_tokens :: "token list \<Rightarrow> jsval option" where
  "parse_tokens ts = (case run (ExpectValue []) ts of Some (Finished v) \<Rightarrow> Some v | _ \<Rightarrow> None)"

text \<open>The numbers of the value read are the doubles that the literals denote.\<close>

fun as_doubles :: "host \<Rightarrow> jsval \<Rightarrow> jsval"
  and as_doubles_elems :: "host \<Rightarrow> jsval list \<Rightarrow> jsval list"
  and as_doubles_members :: "host \<Rightarrow> (string \<times> jsval) list \<Rightarrow> (string \<times> jsval) list" where
  "as_doubles h (Num m k) = double_of h m (- int k)"
| "as_doubles h (Arr xs) = Arr (as_doubles_elems h xs)"
| "as_doubles h (Obj kvs) = Obj (as_doubles_members h kvs)"
| "as_doubles h v = v"
| "as_doubles_elems h [] = []"
| "as_doubles_elems h (x # xs) = as_doubles h x # as_doubles_elems h xs"
| "as_doubles_members h [] = []"
| "as_doubles_members h (kv # kvs) = (fst kv, as_doubles h (snd kv)) # as_doubles_members h kvs"

definition JSON_parse :: "host \<Rightarrow> string \<Rightarrow> jsval option" where
  "JSON_parse h s =
     (case lex s of
        None \<Rightarrow> None
      | Some ts \<Rightarrow> map_option (as_doubles h) (parse_tokens ts))"

section \<open>Number conversions\<close>

text \<open>
  White space at the start of a numeric string: the ASCII characters TAB, LF, VT, FF, CR
  and SP, and in UTF-8 the characters U+00A0, U+1680, U+2000 to U+200A, U+2028, U+2029,
  U+202F, U+205F, U+3000 and U+FEFF.
\<close>

definition is_space :: "char \<Rightarrow> bool" where
  "is_space c = (c = CHR '' '' \<or> (9 \<le> (of_char c :: int) \<and> (of_char c :: int) \<le> 13))"

definition space2 :: "char \<Rightarrow> char \<Rightarrow> bool" where
  "space2 a b = (a = CHR 0xC2 \<and> b = CHR 0xA0)"

definition space3 :: "char \<Rightarrow> char \<Rightarrow> char \<Rightarrow> bool" where
  "space3 a b c =
     ((a = CHR 0xE1 \<and> b = CHR 0x9A \<and> c = CHR 0x80)
      \<or> (a = CHR 0xE2 \<and> b = CHR 0x80
          \<and> ((128 \<le> (of_char c :: int) \<and> (of_char c :: int) \<le> 138)
              \<or> c = CHR 0xA8 \<or> c = CHR 0xA9 \<or> c = CHR 0xAF))
      \<or> (a = CHR 0xE2 \<and> b = CHR 0x81 \<and> c = CHR 0x9F)
      \<or> (a = CHR 0xE3 \<and> b = CHR 0x80 \<and> c = CHR 0x80)
      \<or> (a = CHR 0xEF \<and> b = CHR 0xBB \<and> c = CHR 0xBF))"

fun skip_space :: "string \<Rightarrow> string" where
  "skip_space (a # b # c # rest) =
     (if is_space a then skip_space (b # c # rest)
      else if space2 a b then skip_space (c # rest)
      else if space3 a b c then skip_space rest
      else a # b # c # rest)"
| "skip_space [a, b] =
     (if is_space a then skip_space [b] else if space2 a b then [] else [a, b])"
| "skip_space [a] = (if is_space a then [] else [a])"
| "skip_space [] = []"

text \<open>\<open>parseInt(s, 10)\<close>: leading white space, an optional sign, then the longest run of
  decimal digits, whose value is taken as a double; \<open>NaN\<close> when there is no digit.\<close>

definition parseInt :: "host \<Rightarrow> string \<Rightarrow> jsval" where
  "parseInt h s =
     (if takeWhile is_digit (snd (lex_sign (skip_space s))) = [] then NaN
      else double_of h (fst (lex_sign (skip_space s))
                        * digits_val (takeWhile is_digit (snd (lex_sign (skip_space s))))) 0)"

text \<open>
  \<open>Number(s)\<close> for a string: white space is trimmed at both ends; the empty string is 0;
  a hexadecimal, octal or binary literal (without sign) gives its value; a signed
  \<open>Infinity\<close> or decimal literal gives its value; anything else is \<open>NaN\<close>.
\<close>

definition radix_digit :: "int \<Rightarrow> char \<Rightarrow> bool" where
  "radix_digit r c = (case hex_val c of None \<Rightarrow> False | Some d \<Rightarrow> d < r)"

definition radix_val :: "int \<Rightarrow> string \<Rightarrow> int" where
  "radix_val r ds = foldl (\<lambda>a c. a * r + (case hex_val c of None \<Rightarrow> 0 | Some d \<Rightarrow> d)) 0 ds"

definition radix_literal :: "host \<Rightarrow> int \<Rightarrow> string \<Rightarrow> jsval" where
  "radix_literal h r s =
     (if takeWhile (radix_digit r) s \<noteq> [] \<and> skip_space (dropWhile (radix_digit r) s) = []
      then double_of h (radix_val r (takeWhile (radix_digit r) s)) 0 else NaN)"

definition mantissa :: "string \<Rightarrow> (string \<times> string \<times> string) option" where
  "mantissa r =
     (if dropWhile is_digit r \<noteq> [] \<and> hd (dropWhile is_digit r) = CHR ''.''
      then (if takeWhile is_digit r = [] \<and> takeWhile is_digit (tl (dropWhile is_digit r)) = []
            then None
            else Some (takeWhile is_digit r, takeWhile is_digit (tl (dropWhile is_digit r)),
                       dropWhile is_digit (tl (dropWhile is_digit r))))
      else if takeWhile is_digit r = [] then None
      else Some (takeWhile is_digit r, [], dropWhile is_digit r))"

definition decimal_literal :: "host \<Rightarrow> int \<Rightarrow> string \<Rightarrow> jsval" where
  "decimal_literal h sg r =
     (if take 8 r = ''Infinity'' then (if skip_space (drop 8 r) = [] then Infinity (0 < sg) else NaN)
      else
        (case mantissa r of
           None \<Rightarrow> NaN
         | Some (ip, fp, r2) \<Rightarrow>
             (case lex_exp r2 of
                None \<Rightarrow> NaN
              | Some (e, r3) \<Rightarrow>
                  if skip_space r3 = [] then double_of h (sg * digits_val (ip @ fp)) (e - int (length fp))
                  else NaN)))"

definition numeric_literal :: "host \<Rightarrow> string \<Rightarrow> jsval" where
  "numeric_literal h t =
     (if take 2 t = ''0x'' \<or> take 2 t = ''0X'' then radix_literal h 16 (drop 2 t)
      else if take 2 t = ''0o'' \<or> take 2 t = ''0O'' then radix_literal h 8 (drop 2 t)
      else if take 2 t = ''0b'' \<or> take 2 t = ''0B'' then radix_literal h 2 (drop 2 t)
      else decimal_literal h (fst (lex_sign t)) (snd (lex_sign t)))"

definition toNumber :: "host \<Rightarrow> string \<Rightarrow> jsval" where
  "toNumber h s = (if skip_space s = [] then Num 0 0 else numeric_literal h (skip_space s))"

section \<open>The request and the response\<close>

text \<open>
  \<open>req.query\<close> as Express parses it from the URL: each parameter is absent
  (\<open>undefined\<close>) or a string. (Repeated and bracketed parameters, which the query parser
  turns into arrays and objects, are not modelled.)
\<close>

record query =
  cursor :: "string option"
  limit :: "string option"
  sortBy :: "string option"
  sortOrder :: "string option"
  category :: "string option"
  status :: "string option"
  minPrice :: "string option"
  maxPrice :: "string option"
  search :: "string option"

text \<open>\<open>res.status(code).json(body)\<close>.\<close>

datatype response = Response int jsval

fun status_code :: "response \<Rightarrow> int" where
  "status_code (Response c b) = c"

fun json_body :: "response \<Rightarrow> jsval" where
  "json_body (Response c b) = b"

text \<open>A lean document is a plain object: the list of its fields.\<close>

type_synonym document = "(string \<times> jsval) list"

text \<open>
  The storage interface \<open>Item.find(filter).sort(sort).limit(n).lean()\<close>, awaited: it is
  given the filter object, the sort object and the limit, and either rejects with an
  error message or resolves to the documents.
\<close>

type_synonym storage = "jsval \<Rightarrow> jsval \<Rightarrow> jsval \<Rightarrow> string + document list"

section \<open>The controller \<open>getItems\<close>\<close>

text \<open>\<open>if (p) { ... }\<close> on a query parameter \<open>p\<close>: the body runs on a non-empty string.\<close>

definition when_truthy :: "string option \<Rightarrow> (string \<Rightarrow> jsval \<Rightarrow> jsval) \<Rightarrow> jsval \<Rightarrow> jsval" where
  "when_truthy p f x = (case p of None \<Rightarrow> x | Some s \<Rightarrow> if s = [] then x else f s x)"

text \<open>Lines 9--19: the defaults of the destructuring apply to absent parameters only.\<close>

definition sortBy_of :: "query \<Rightarrow> string" where
  "sortBy_of q = (case sortBy q of None \<Rightarrow> ''createdAt'' | Some s \<Rightarrow> s)"

definition sortOrder_of :: "query \<Rightarrow> string" where
  "sortOrder_of q = (case sortOrder q of None \<Rightarrow> ''desc'' | Some s \<Rightarrow> s)"

definition limitNum_of :: "host \<Rightarrow> query \<Rightarrow> jsval" where
  "limitNum_of h q = (case limit q of None \<Rightarrow> Num 10 0 | Some s \<Rightarrow> parseInt h s)"

text \<open>Lines 21--43: the query filter.\<close>

definition price_range :: "host \<Rightarrow> query \<Rightarrow> jsval" where
  "price_range h q =
     when_truthy (maxPrice q) (\<lambda>s price. setprop price ''$lte'' (toNumber h s))
       (when_truthy (minPrice q) (\<lambda>s price. setprop price ''$gte'' (toNumber h s)) (Obj []))"

definition search_clauses :: "string \<Rightarrow> jsval" where
  "search_clauses s =
     Arr [Obj [(''name'', Obj [(''$regex'', Str s), (''$options'', Str ''i'')])],
          Obj [(''description'', Obj [(''$regex'', Str s), (''$options'', Str ''i'')])]]"

definition build_filter :: "host \<Rightarrow> query \<Rightarrow> jsval" where
  "build_filter h q =
     (let f0 = Obj [];
          f1 = when_truthy (category q) (\<lambda>s f. setprop f ''category'' (Str s)) f0;
          f2 = when_truthy (status q) (\<lambda>s f. setprop f ''status'' (Str s)) f1;
          f3 = (if truthy (minPrice q) \<or> truthy (maxPrice q)
                then setprop f2 ''price'' (price_range h q) else f2);
          f4 = when_truthy (search q) (\<lambda>s f. setprop f ''$or'' (search_clauses s)) f3
      in f4)"

text \<open>Lines 50--51: \<open>JSON.parse(Buffer.from(cursor, 'base64').toString('utf-8'))\<close>.\<close>

definition decode_cursor :: "host \<Rightarrow> string \<Rightarrow> jsval option" where
  "decode_cursor h c = JSON_parse h (utf8_text h (base64_decode c))"

text \<open>
  Lines 53--87: the cursor condition, by sort field. \<open>None\<close> is an exception thrown
  inside the inner \<open>try\<close>: reading a property of \<open>null\<close>, or \<open>new Date\<close> of a value without
  primitive form.
\<close>

definition cursor_createdAt :: "host \<Rightarrow> string \<Rightarrow> jsval \<Rightarrow> jsval \<Rightarrow> jsval option" where
  "cursor_createdAt h ord cursorValue flt =
     (case getprop h cursorValue ''createdAt'' of
        None \<Rightarrow> None
      | Some c \<Rightarrow>
          (case newDate h c of
             None \<Rightarrow> None
           | Some d \<Rightarrow>
               if ord = ''desc''
               then Some (setprop flt ''createdAt'' (Obj [(''$lt'', d)]))
               else Some (setprop flt ''createdAt'' (Obj [(''$gt'', d)]))))"

definition cursor_price :: "host \<Rightarrow> string \<Rightarrow> jsval \<Rightarrow> jsval \<Rightarrow> jsval option" where
  "cursor_price h ord cursorValue flt =
     (case (getprop h cursorValue ''price'', getprop h cursorValue ''createdAt'') of
        (Some p, Some c) \<Rightarrow>
          (case newDate h c of
             None \<Rightarrow> None
           | Some d \<Rightarrow>
               if ord = ''desc''
               then Some (setprop flt ''$or''
                      (Arr [object_literal [(''price'', Obj [(''$lt'', p)])],
                            object_literal [(''price'', p), (''createdAt'', Obj [(''$lt'', d)])]]))
               else Some (setprop flt ''$or''
                      (Arr [object_literal [(''price'', Obj [(''$gt'', p)])],
                            object_literal [(''price'', p), (''createdAt'', Obj [(''$gt'', d)])]])))
      | _ \<Rightarrow> None)"

definition cursor_other :: "host \<Rightarrow> string \<Rightarrow> string \<Rightarrow> jsval \<Rightarrow> jsval \<Rightarrow> jsval option" where
  "cursor_other h fld ord cursorValue flt =
     (case (getprop h cursorValue fld, getprop h cursorValue ''createdAt'') of
        (Some v, Some c) \<Rightarrow>
          (case newDate h c of
             None \<Rightarrow> None
           | Some d \<Rightarrow>
               Some (setprop flt ''$or''
                 (Arr [object_literal
                         [(fld, if ord = ''desc'' then Obj [(''$lt'', v)] else Obj [(''$gt'', v)])],
                       object_literal
                         [(fld, v),
                          (''createdAt'', if ord = ''desc'' then Obj [(''$lt'', d)]
                                          else Obj [(''$gt'', d)])]])))
      | _ \<Rightarrow> None)"

definition cursor_condition :: "host \<Rightarrow> string \<Rightarrow> string \<Rightarrow> jsval \<Rightarrow> jsval \<Rightarrow> jsval option" where
  "cursor_condition h fld ord cursorValue flt =
     (if fld = ''createdAt'' then cursor_createdAt h ord cursorValue flt
      else if fld = ''price'' then cursor_price h ord cursorValue flt
      else cursor_other h fld ord cursorValue flt)"

text \<open>Lines 45--94: with a cursor, decode it and add its condition; \<open>None\<close> is the
  \<open>catch\<close> of the inner \<open>try\<close>, which answers 400.\<close>

definition compile_filter :: "host \<Rightarrow> query \<Rightarrow> jsval option" where
  "compile_filter h q =
     (case cursor q of
        None \<Rightarrow> Some (build_filter h q)
      | Some c \<Rightarrow>
          if c = [] then Some (build_filter h q)
          else (case decode_cursor h c of
                  None \<Rightarrow> None
                | Some cursorValue \<Rightarrow>
                    cursor_condition h (sortBy_of q) (sortOrder_of q) cursorValue (build_filter h q)))"

text \<open>Lines 96--102: the sort object.\<close>

definition build_sort :: "query \<Rightarrow> jsval" where
  "build_sort q =
     (let sort = setprop (Obj []) (sortBy_of q)
                   (if sortOrder_of q = ''desc'' then Num (- 1) 0 else Num 1 0)
      in if sortBy_of q \<noteq> ''createdAt'' then setprop sort ''createdAt'' (Num (- 1) 0) else sort)"

text \<open>Lines 104--113: \<open>limitNum + 1\<close>, \<open>items.length > limitNum\<close> and
  \<open>items.slice(0, limitNum)\<close>. The sum of an integer below \<open>2^53\<close> in magnitude and 1 is
  exact; every comparison with \<open>NaN\<close> is false, and a negative end index of \<open>slice\<close> counts
  from the end.\<close>

fun plus_one :: "host \<Rightarrow> jsval \<Rightarrow> jsval" where
  "plus_one h (Num m k) =
     (if k = 0 \<and> \<bar>m\<bar> < 9007199254740992 then Num (m + 1) 0
      else double_of h (m + 10 ^ k) (- int k))"
| "plus_one h (Infinity b) = Infinity b"
| "plus_one h v = NaN"

fun length_gt :: "'a list \<Rightarrow> jsval \<Rightarrow> bool" where
  "length_gt xs (Num m k) = (m < int (length xs) * 10 ^ k)"
| "length_gt xs (Infinity b) = (\<not> b)"
| "length_gt xs v = False"

fun slice0 :: "'a list \<Rightarrow> jsval \<Rightarrow> 'a list" where
  "slice0 xs (Num m k) =
     (if 0 \<le> trunc_num m k then take (nat (trunc_num m k)) xs
      else take (nat (int (length xs) + trunc_num m k)) xs)"
| "slice0 xs (Infinity b) = (if b then xs else [])"
| "slice0 xs v = []"

text \<open>Lines 115--124: the next cursor, from the last item of the page.\<close>

definition encode_cursor :: "jsval \<Rightarrow> jsval option" where
  "encode_cursor cursorData = map_option (\<lambda>s. Str (base64_encode s)) (stringify cursorData)"

definition read_field_of :: "host \<Rightarrow> document \<Rightarrow> string \<Rightarrow> jsval" where
  "read_field_of h d k = (case map_of d k of None \<Rightarrow> builtin_get h (Obj d) k | Some v \<Rightarrow> v)"

definition cursorData_of :: "host \<Rightarrow> string \<Rightarrow> document \<Rightarrow> jsval" where
  "cursorData_of h fld lastItem =
     object_literal [(fld, read_field_of h lastItem fld),
                     (''createdAt'', read_field_of h lastItem ''createdAt'')]"

definition next_cursor :: "host \<Rightarrow> string \<Rightarrow> bool \<Rightarrow> document list \<Rightarrow> jsval option" where
  "next_cursor h fld hasMore resultItems =
     (if hasMore \<and> 0 < length resultItems
      then encode_cursor (cursorData_of h fld (last resultItems))
      else Some Null)"

definition server_error :: "string \<Rightarrow> response" where
  "server_error msg =
     Response 500 (Obj [(''success'', Bool False),
                        (''message'', Str (if msg = [] then ''Server error'' else msg))])"

text \<open>Lines 126--137: the answer with a page.\<close>

definition ok_page :: "document list \<Rightarrow> bool \<Rightarrow> jsval \<Rightarrow> jsval \<Rightarrow> response" where
  "ok_page resultItems hasMore nextCursor limitNum =
     Response 200
       (Obj [(''success'', Bool True),
             (''data'',
              Obj [(''items'', Arr (map Obj resultItems)),
                   (''pagination'',
                    Obj [(''hasMore'', Bool hasMore),
                         (''nextCursor'', nextCursor),
                         (''limit'', limitNum),
                         (''count'', Num (int (length resultItems)) 0)])])])"

text \<open>Lines 111--137: the page from the rows that the query returned. (\<open>JSON.stringify\<close>
  of the cursor data, an object, is always a string; were it \<open>undefined\<close>, \<open>Buffer.from\<close>
  would throw into the outer \<open>catch\<close>.)\<close>

definition page_items :: "host \<Rightarrow> query \<Rightarrow> document list \<Rightarrow> document list" where
  "page_items h q items =
     (if length_gt items (limitNum_of h q) then slice0 items (limitNum_of h q) else items)"

definition page_response :: "host \<Rightarrow> query \<Rightarrow> document list \<Rightarrow> response" where
  "page_response h q items =
     (case next_cursor h (sortBy_of q) (length_gt items (limitNum_of h q)) (page_items h q items) of
        None \<Rightarrow> server_error ''The first argument must be of type string''
      | Some nextCursor \<Rightarrow>
          ok_page (page_items h q items) (length_gt items (limitNum_of h q)) nextCursor (limitNum_of h q))"

text \<open>The handler: the inner \<open>catch\<close> answers 400, a rejected query is caught by the
  outer \<open>catch\<close> and answers 500.\<close>

definition getItems :: "host \<Rightarrow> storage \<Rightarrow> query \<Rightarrow> response" where
  "getItems h db q =
     (case compile_filter h q of
        None \<Rightarrow>
          Response 400 (Obj [(''success'', Bool False), (''message'', Str ''Invalid cursor format'')])
      | Some flt \<Rightarrow>
          (case db flt (build_sort q) (plus_one h (limitNum_of h q)) of
             Inl msg \<Rightarrow> server_error msg
           | Inr items \<Rightarrow> page_response h q items))"

section \<open>A reference storage\<close>

text \<open>
  An in-memory collection that answers the queries the controller emits the way Mongoose
  and MongoDB do: the operands are cast by the schema of models/Item.js, a document
  matches when every top-level condition holds, \<open>$or\<close> holds when one of its clauses
  matches, the comparison operators compare values of the same BSON type only, and the
  result is ordered by the sort keys from left to right. Documents that agree on every
  sort key keep their order in the collection.
\<close>

definition field :: "document \<Rightarrow> string \<Rightarrow> jsval" where
  "field d k = (case map_of d k of None \<Rightarrow> Undefined | Some v \<Rightarrow> v)"

text \<open>The schema types of the paths of an Item.\<close>

datatype schema_type = SString | SNumber | SDate | SObjectId | SNone

definition schema_of :: "string \<Rightarrow> schema_type" where
  "schema_of k =
     (if k = ''name'' \<or> k = ''description'' \<or> k = ''category'' \<or> k = ''status'' then SString
      else if k = ''price'' \<or> k = ''stock'' \<or> k = ''__v'' then SNumber
      else if k = ''createdAt'' \<or> k = ''updatedAt'' then SDate
      else if k = ''_id'' then SObjectId
      else SNone)"

text \<open>The cast of a query operand to the type of its path; \<open>None\<close> is a CastError.\<close>

definition cast_date :: "host \<Rightarrow> jsval \<Rightarrow> jsval option" where
  "cast_date h v =
     (case v of
        Date t \<Rightarrow> Some (Date t)
      | Str s \<Rightarrow> (case date_of_string h s of Date t \<Rightarrow> Some (Date t) | _ \<Rightarrow> None)
      | Num m k \<Rightarrow> (case time_clip (trunc_num m k) of Date t \<Rightarrow> Some (Date t) | _ \<Rightarrow> None)
      | Null \<Rightarrow> Some Null
      | Undefined \<Rightarrow> Some Null
      | _ \<Rightarrow> None)"

definition cast_number :: "host \<Rightarrow> jsval \<Rightarrow> jsval option" where
  "cast_number h v =
     (case v of
        Num m k \<Rightarrow> Some (Num m k)
      | Infinity b \<Rightarrow> Some (Infinity b)
      | Str s \<Rightarrow> (case toNumber h s of NaN \<Rightarrow> None | n \<Rightarrow> Some n)
      | Bool b \<Rightarrow> Some (Num (if b then 1 else 0) 0)
      | Null \<Rightarrow> Some Null
      | Undefined \<Rightarrow> Some Null
      | _ \<Rightarrow> None)"

definition cast_string :: "jsval \<Rightarrow> jsval option" where
  "cast_string v =
     (case v of
        Str s \<Rightarrow> Some (Str s)
      | Num m k \<Rightarrow> Some (Str (show_num m k))
      | Bool b \<Rightarrow> Some (Str (if b then ''true'' else ''false''))
      | Null \<Rightarrow> Some Null
      | Undefined \<Rightarrow> Some Null
      | _ \<Rightarrow> None)"

definition cast_objectid :: "jsval \<Rightarrow> jsval option" where
  "cast_objectid v =
     (case v of
        ObjectId x \<Rightarrow> Some (ObjectId x)
      | Str s \<Rightarrow>
          if length s = 24 \<and> list_all (\<lambda>c. hex_val c \<noteq> None) s then Some (ObjectId s) else None
      | Null \<Rightarrow> Some Null
      | Undefined \<Rightarrow> Some Null
      | _ \<Rightarrow> None)"

definition cast_operand :: "host \<Rightarrow> string \<Rightarrow> jsval \<Rightarrow> jsval option" where
  "cast_operand h k v =
     (case schema_of k of
        SString \<Rightarrow> cast_string v
      | SNumber \<Rightarrow> cast_number h v
      | SDate \<Rightarrow> cast_date h v
      | SObjectId \<Rightarrow> cast_objectid v
      | SNone \<Rightarrow> Some (if v = Undefined then Null else v))"

text \<open>The BSON comparison order: first by type, then by value within the type.\<close>

fun type_rank :: "jsval \<Rightarrow> int" where
  "type_rank Undefined = 1"
| "type_rank Null = 1"
| "type_rank (Num m k) = 2"
| "type_rank NaN = 2"
| "type_rank (Infinity b) = 2"
| "type_rank (Str s) = 3"
| "type_rank (Obj kvs) = 4"
| "type_rank (Arr xs) = 5"
| "type_rank (ObjectId x) = 7"
| "type_rank (Bool b) = 8"
| "type_rank (Date t) = 9"
| "type_rank InvalidDate = 9"
| "type_rank (Function src) = 13"

definition less_same :: "jsval \<Rightarrow> jsval \<Rightarrow> bool" where
  "less_same a b =
     (case a of
        Num m k \<Rightarrow> (case b of Num n l \<Rightarrow> m * 10 ^ l < n * 10 ^ k | Infinity p \<Rightarrow> p | _ \<Rightarrow> False)
      | Infinity p \<Rightarrow> (case b of Num n l \<Rightarrow> \<not> p | Infinity r \<Rightarrow> \<not> p \<and> r | _ \<Rightarrow> False)
      | Str s \<Rightarrow> (case b of Str t \<Rightarrow> s < t | _ \<Rightarrow> False)
      | ObjectId x \<Rightarrow> (case b of ObjectId y \<Rightarrow> x < y | _ \<Rightarrow> False)
      | Bool p \<Rightarrow> (case b of Bool r \<Rightarrow> \<not> p \<and> r | _ \<Rightarrow> False)
      | Date s \<Rightarrow> (case b of Date t \<Rightarrow> s < t | _ \<Rightarrow> False)
      | _ \<Rightarrow> False)"

definition bson_less :: "jsval \<Rightarrow> jsval \<Rightarrow> bool" where
  "bson_less a b = (type_rank a < type_rank b \<or> (type_rank a = type_rank b \<and> less_same a b))"

text \<open>A case-insensitive occurrence of the pattern, taken literally (the metacharacters of
  regular expressions are not modelled).\<close>

definition lower :: "char \<Rightarrow> char" where
  "lower c =
     (if 65 \<le> (of_char c :: int) \<and> (of_char c :: int) \<le> 90 then char_of ((of_char c :: int) + 32)
      else c)"

fun occurs_in :: "string \<Rightarrow> string \<Rightarrow> bool" where
  "occurs_in p [] = (p = [])"
| "occurs_in p (c # cs) = (take (length p) (c # cs) = p \<or> occurs_in p cs)"

definition regex_match :: "jsval \<Rightarrow> jsval \<Rightarrow> jsval \<Rightarrow> bool" where
  "regex_match pat opts v =
     (case pat of
        Str p \<Rightarrow>
          (case v of
             Str t \<Rightarrow> if opts = Str ''i'' then occurs_in (map lower p) (map lower t) else occurs_in p t
           | _ \<Rightarrow> False)
      | _ \<Rightarrow> False)"

text \<open>One operator of a condition \<open>{k: {op: x, ...}}\<close> on the value \<open>v\<close> of the field;
  \<open>ops\<close> is the whole condition, where \<open>$regex\<close> finds its \<open>$options\<close>.\<close>

definition compare_holds :: "string \<Rightarrow> jsval \<Rightarrow> jsval \<Rightarrow> bool" where
  "compare_holds op v x =
     (if op = ''$lt'' then type_rank v = type_rank x \<and> less_same v x
      else if op = ''$gt'' then type_rank v = type_rank x \<and> less_same x v
      else if op = ''$lte'' then type_rank v = type_rank x \<and> \<not> less_same x v
      else if op = ''$gte'' then type_rank v = type_rank x \<and> \<not> less_same v x
      else False)"

definition operator_holds :: "host \<Rightarrow> string \<Rightarrow> (string \<times> jsval) list \<Rightarrow> jsval \<Rightarrow> string \<times> jsval \<Rightarrow> bool" where
  "operator_holds h k ops v ox =
     (if fst ox = ''$regex'' then regex_match (snd ox) (field ops ''$options'') v
      else if fst ox = ''$options'' then True
      else (case cast_operand h k (snd ox) of
              None \<Rightarrow> False
            | Some x \<Rightarrow> compare_holds (fst ox) v x))"

definition is_operators :: "(string \<times> jsval) list \<Rightarrow> bool" where
  "is_operators ops = (ops \<noteq> [] \<and> list_all (\<lambda>ox. take 1 (fst ox) = ''$'') ops)"

text \<open>A condition on a field: an object of operators, or a value to be equal to.\<close>

definition equal_holds :: "host \<Rightarrow> string \<Rightarrow> jsval \<Rightarrow> jsval \<Rightarrow> bool" where
  "equal_holds h k c v =
     (case cast_operand h k c of
        None \<Rightarrow> False
      | Some x \<Rightarrow> type_rank v = type_rank x \<and> \<not> less_same v x \<and> \<not> less_same x v)"

definition condition_holds :: "host \<Rightarrow> string \<Rightarrow> jsval \<Rightarrow> jsval \<Rightarrow> bool" where
  "condition_holds h k c v =
     (case c of
        Obj ops \<Rightarrow> is_operators ops \<and> list_all (operator_holds h k ops v) ops
      | _ \<Rightarrow> equal_holds h k c v)"

fun matches :: "host \<Rightarrow> jsval \<Rightarrow> document \<Rightarrow> bool"
  and matches_all :: "host \<Rightarrow> (string \<times> jsval) list \<Rightarrow> document \<Rightarrow> bool"
  and matches_any :: "host \<Rightarrow> jsval list \<Rightarrow> document \<Rightarrow> bool" where
  "matches h (Obj kvs) d = matches_all h kvs d"
| "matches h (Arr cs) d = matches_any h cs d"
| "matches h v d = False"
| "matches_all h [] d = True"
| "matches_all h (kv # kvs) d =
     ((if fst kv = ''$or'' then matches h (snd kv) d
       else condition_holds h (fst kv) (snd kv) (field d (fst kv)))
      \<and> matches_all h kvs d)"
| "matches_any h [] d = False"
| "matches_any h (c # cs) d = (matches h c d \<or> matches_any h cs d)"

text \<open>Whether every operand of the filter can be cast; if not, the query is rejected.\<close>

definition condition_castable :: "host \<Rightarrow> string \<Rightarrow> jsval \<Rightarrow> bool" where
  "condition_castable h k c =
     (case c of
        Obj ops \<Rightarrow>
          list_all (\<lambda>ox. fst ox = ''$regex'' \<or> fst ox = ''$options'' \<or> cast_operand h k (snd ox) \<noteq> None) ops
      | _ \<Rightarrow> cast_operand h k c \<noteq> None)"

fun castable :: "host \<Rightarrow> jsval \<Rightarrow> bool"
  and castable_all :: "host \<Rightarrow> (string \<times> jsval) list \<Rightarrow> bool"
  and castable_each :: "host \<Rightarrow> jsval list \<Rightarrow> bool" where
  "castable h (Obj kvs) = castable_all h kvs"
| "castable h (Arr cs) = castable_each h cs"
| "castable h v = False"
| "castable_all h [] = True"
| "castable_all h (kv # kvs) =
     ((if fst kv = ''$or'' then castable h (snd kv) else condition_castable h (fst kv) (snd kv))
      \<and> castable_all h kvs)"
| "castable_each h [] = True"
| "castable_each h (c # cs) = (castable h c \<and> castable_each h cs)"

text \<open>The sort: \<open>before keys a b\<close> holds when \<open>a\<close> does not come after \<open>b\<close>.\<close>

fun before :: "(string \<times> jsval) list \<Rightarrow> document \<Rightarrow> document \<Rightarrow> bool" where
  "before [] a b = True"
| "before (kd # keys) a b =
     (if bson_less (field a (fst kd)) (field b (fst kd)) then snd kd = Num 1 0
      else if bson_less (field b (fst kd)) (field a (fst kd)) then snd kd \<noteq> Num 1 0
      else before keys a b)"

fun insert_doc :: "(string \<times> jsval) list \<Rightarrow> document \<Rightarrow> document list \<Rightarrow> document list" where
  "insert_doc keys x [] = [x]"
| "insert_doc keys x (y # ys) =
     (if before keys x y then x # y # ys else y # insert_doc keys x ys)"

definition sort_docs :: "jsval \<Rightarrow> document list \<Rightarrow> document list" where
  "sort_docs srt ds = (case srt of Obj keys \<Rightarrow> foldr (insert_doc keys) ds [] | _ \<Rightarrow> ds)"

text \<open>\<open>limit(n)\<close>: zero means no limit, a negative limit is taken by its absolute value,
  and a limit that is not a finite number is rejected.\<close>

definition apply_limit :: "jsval \<Rightarrow> document list \<Rightarrow> string + document list" where
  "apply_limit n ds =
     (case n of
        Num m k \<Rightarrow> if trunc_num m k = 0 then Inr ds else Inr (take (nat \<bar>trunc_num m k\<bar>) ds)
      | _ \<Rightarrow> Inl ''limit must be a number'')"

definition collection :: "host \<Rightarrow> document list \<Rightarrow> storage" where
  "collection h docs flt srt lim =
     (if \<not> castable h flt then Inl ''CastError''
      else apply_limit lim (sort_docs srt (filter (\<lambda>d. matches h flt d) docs)))"

section \<open>Example data\<close>

text \<open>
  The host at which the examples below are evaluated. Its \<open>Date.parse\<close> reads the
  format of \<open>toISOString\<close>; it finds no built-in property; it takes a decimal for the
  double it denotes; and its decoding of UTF-8 is the identity. The examples parse only
  strings that \<open>toISOString\<close> printed, read only the properties \<open>createdAt\<close>, \<open>price\<close> and
  \<open>colour\<close>, which no prototype defines, write numbers of at most six digits, which are
  the shortest decimals of their doubles, and decode ASCII text only; on these every
  host agrees with this one.
\<close>

definition plain_host :: host where
  "plain_host = \<lparr>date_parse = parse_iso, builtin_get = (\<lambda>v k. Undefined),
     double_of = decimal, utf8_text = (\<lambda>s. s)\<rparr>"

text \<open>The request without any query parameter.\<close>

definition empty_query :: query where
  "empty_query = \<lparr>cursor = None, limit = None, sortBy = None, sortOrder = None, category = None,
     status = None, minPrice = None, maxPrice = None, search = None\<rparr>"

text \<open>An item of the collection, as the schema of models/Item.js stores it: the price is
  given in hundredths.\<close>

definition item :: "string \<Rightarrow> string \<Rightarrow> string \<Rightarrow> int \<Rightarrow> int \<Rightarrow> document" where
  "item oid nm cat cents t =
     [(''_id'', ObjectId oid), (''name'', Str nm), (''category'', Str cat),
      (''price'', decimal cents (- 2)), (''stock'', Num 0 0), (''status'', Str ''active''),
      (''createdAt'', Date t), (''updatedAt'', Date t), (''__v'', Num 0 0)]"

definition laptop :: document where
  "laptop = item ''65540a2f9d3e2a0012ab0001'' ''Laptop'' ''electronics'' 99999 1700000000100"

definition lapdesk :: document where
  "lapdesk = item ''65540a2f9d3e2a0012ab0002'' ''Lap desk'' ''furniture'' 4999 1700000000200"

definition chair :: document where
  "chair = item ''65540a2f9d3e2a0012ab0003'' ''Office Chair'' ''furniture'' 19999 1700000000300"

definition mat :: document where
  "mat = item ''65540a2f9d3e2a0012ab0004'' ''Yoga Mat'' ''sports'' 4999 1700000000400"

definition shop :: "document list" where
  "shop = [laptop, lapdesk, chair, mat]"

text \<open>The paths of the schema of models/Item.js, with the two that Mongoose adds.\<close>

definition item_paths :: "string list" where
  "item_paths = [''_id'', ''name'', ''description'', ''category'', ''price'', ''stock'', ''status'',
     ''createdAt'', ''updatedAt'', ''__v'']"

section \<open>Objects and their properties\<close>

text \<open>Defining a property changes the value of that property and of no other.\<close>

lemma map_of_replace_prop:
  "map_of kvs k \<noteq> None \<Longrightarrow> map_of (replace_prop k v kvs) = (map_of kvs)(k \<mapsto> v)"
  by (induction kvs) (auto simp add: fun_eq_iff)

lemma map_of_insert_prop:
  "map_of kvs k = None \<Longrightarrow> map_of (insert_prop k v kvs) = (map_of kvs)(k \<mapsto> v)"
  by (induction kvs) (auto simp add: fun_eq_iff split: if_splits)

lemma map_of_assign: "map_of (assign k v kvs) = (map_of kvs)(k \<mapsto> v)"
  by (simp add: assign_def map_of_replace_prop map_of_insert_prop)

lemma setprop_object:
  "k \<noteq> ''__proto__'' \<Longrightarrow> setprop (Obj kvs) k v = Obj (assign k v kvs)"
  by simp

lemma not_index_createdAt: "\<not> is_index ''createdAt''"
  by (simp add: is_index_def is_digit_def)

lemma object_literal_one: "object_literal [(k, v)] = Obj [(k, v)]"
  by (simp add: object_literal_def assign_def)

lemma object_literal_two:
  "k \<noteq> ''createdAt'' \<Longrightarrow>
   object_literal [(k, v), (''createdAt'', w)] = Obj [(k, v), (''createdAt'', w)]"
  by (simp add: object_literal_def assign_def precedes_def not_index_createdAt)

lemma when_truthy_object:
  assumes "\<And>s kvs. \<exists>kvs'. f s (Obj kvs) = Obj kvs'"
  shows "\<exists>kvs'. when_truthy p f (Obj kvs) = Obj kvs'"
  using assms by (simp add: when_truthy_def split: option.splits)

lemma build_filter_object: "\<exists>kvs. build_filter h q = Obj kvs"
proof -
  obtain k1 where f1: "when_truthy (category q) (\<lambda>s f. setprop f ''category'' (Str s)) (Obj []) = Obj k1"
    using when_truthy_object [of "\<lambda>s f. setprop f ''category'' (Str s)" "category q" "[]"] by auto
  obtain k2 where f2: "when_truthy (status q) (\<lambda>s f. setprop f ''status'' (Str s)) (Obj k1) = Obj k2"
    using when_truthy_object [of "\<lambda>s f. setprop f ''status'' (Str s)" "status q" k1] by auto
  obtain k3 where f3: "(if truthy (minPrice q) \<or> truthy (maxPrice q)
                then setprop (Obj k2) ''price'' (price_range h q) else Obj k2) = Obj k3"
    by (cases "truthy (minPrice q) \<or> truthy (maxPrice q)") auto
  obtain k4 where f4: "when_truthy (search q) (\<lambda>s f. setprop f ''$or'' (search_clauses s)) (Obj k3) = Obj k4"
    using when_truthy_object [of "\<lambda>s f. setprop f ''$or'' (search_clauses s)" "search q" k3] by auto
  show ?thesis
    unfolding build_filter_def Let_def f1 f2 f3 f4 by simp
qed

section \<open>Properties of the cursor translation\<close>

text \<open>
  Claim C10. For every cursor value, sort order and filter, and on every host, the branch
  for \<open>sortBy === 'price'\<close> (lines 60--77) gives the same result as the branch for the
  other fields (lines 78--87) taken at the field \<open>price\<close>: the same filter, or the same
  exception.
\<close>

theorem price_branch_is_generic:
  "cursor_price h ord cursorValue flt = cursor_other h ''price'' ord cursorValue flt"
  by (simp add: cursor_price_def cursor_other_def split: option.splits)

text \<open>
  Claim C2. Take a request with a non-empty cursor that decodes to \<open>cursorValue\<close>. Let
  \<open>fld\<close> be the \<open>sortBy\<close> parameter of the request, \<open>createdAt\<close> when it is absent, and
  let \<open>cmp\<close> be \<open>$lt\<close> when the \<open>sortOrder\<close> parameter is absent or \<open>desc\<close>, and \<open>$gt\<close>
  otherwise. Let \<open>v\<close> and \<open>c\<close> be the values that the cursor holds for \<open>fld\<close> and for
  \<open>createdAt\<close>, and \<open>d\<close> the date \<open>new Date(c)\<close>, which is assumed not to throw. Then the
  cursor is accepted, and the filter handed to the storage is an object with the
  properties of the filter built from the other parameters, except for one:

  \<^item> for \<open>fld = createdAt\<close>, its property \<open>createdAt\<close> is \<open>{cmp: d}\<close>;
  \<^item> for every other \<open>fld\<close>, its property \<open>$or\<close> is the list of the two clauses
    \<open>{fld: {cmp: v}}\<close> and \<open>{fld: v, createdAt: {cmp: d}}\<close>.

  The storage reads a clause \<open>{fld: v}\<close> as an equality when \<open>v\<close> is not itself an object
  of operators.
\<close>

theorem cursor_predicate_compiled:
  assumes tok: "cursor q = Some tok" "tok \<noteq> []"
    and dec: "decode_cursor h tok = Some cursorValue"
    and fld: "fld = (case sortBy q of None \<Rightarrow> ''createdAt'' | Some s \<Rightarrow> s)"
    and cmp: "cmp = (if sortOrder q = None \<or> sortOrder q = Some ''desc'' then ''$lt'' else ''$gt'')"
    and v: "getprop h cursorValue fld = Some v"
    and c: "getprop h cursorValue ''createdAt'' = Some c"
    and d: "newDate h c = Some d"
    and base: "build_filter h q = Obj base"
  shows "(fld = ''createdAt'' \<longrightarrow>
            (\<exists>kvs. compile_filter h q = Some (Obj kvs) \<and>
                   map_of kvs = (map_of base)(''createdAt'' \<mapsto> Obj [(cmp, d)])))
       \<and> (fld \<noteq> ''createdAt'' \<longrightarrow>
            (\<exists>kvs. compile_filter h q = Some (Obj kvs) \<and>
                   map_of kvs = (map_of base)(''$or'' \<mapsto>
                     Arr [Obj [(fld, Obj [(cmp, v)])],
                          Obj [(fld, v), (''createdAt'', Obj [(cmp, d)])]])))"
proof -
  have sb: "sortBy_of q = fld"
    by (simp add: sortBy_of_def fld)
  have so: "(sortOrder_of q = ''desc'') = (sortOrder q = None \<or> sortOrder q = Some ''desc'')"
    by (simp add: sortOrder_of_def split: option.splits)
  have cf: "compile_filter h q = cursor_condition h fld (sortOrder_of q) cursorValue (Obj base)"
    by (simp add: compile_filter_def tok dec sb base)
  show ?thesis
  proof (cases "fld = ''createdAt''")
    case True
    have "cursor_condition h fld (sortOrder_of q) cursorValue (Obj base) =
          Some (Obj (assign ''createdAt'' (Obj [(cmp, d)]) base))"
      using c d by (simp add: True cursor_condition_def cursor_createdAt_def so cmp)
    then show ?thesis
      using True cf by (simp add: map_of_assign)
  next
    case False
    have pr: "cursor_price h (sortOrder_of q) cursorValue (Obj base) =
              cursor_other h ''price'' (sortOrder_of q) cursorValue (Obj base)"
      by (simp add: cursor_price_def cursor_other_def split: option.splits)
    have "cursor_condition h fld (sortOrder_of q) cursorValue (Obj base) =
          cursor_other h fld (sortOrder_of q) cursorValue (Obj base)"
      using False by (simp add: cursor_condition_def pr)
    also have "\<dots> = Some (Obj (assign ''$or''
                 (Arr [Obj [(fld, Obj [(cmp, v)])],
                       Obj [(fld, v), (''createdAt'', Obj [(cmp, d)])]]) base))"
      using v c d False
      by (simp add: cursor_other_def so cmp object_literal_one object_literal_two)
    finally show ?thesis
      using False cf by (simp add: map_of_assign)
  qed
qed

text \<open>
  The theorem at three requests: the cursor \<open>{"createdAt":"2023-11-14T22:13:20.200Z"}\<close>
  with the default sort and a category; \<open>{"price":5,"createdAt":...}\<close> sorted by price,
  ascending, with a status; and \<open>{"name":"Lap desk","createdAt":...}\<close> sorted by name,
  descending, with a category.
\<close>

theorem cursor_predicate_compiled_witness:
  "(\<exists>kvs. compile_filter plain_host
            (empty_query\<lparr>cursor := Some ''eyJjcmVhdGVkQXQiOiIyMDIzLTExLTE0VDIyOjEzOjIwLjIwMFoifQ=='',
               category := Some ''sports''\<rparr>) = Some (Obj kvs)
          \<and> map_of kvs = [''category'' \<mapsto> Str ''sports'',
                          ''createdAt'' \<mapsto> Obj [(''$lt'', Date 1700000000200)]])
   \<and> (\<exists>kvs. compile_filter plain_host
            (empty_query\<lparr>cursor := Some ''eyJwcmljZSI6NSwiY3JlYXRlZEF0IjoiMjAyMy0xMS0xNFQyMjoxMzoyMC4yMDBaIn0='',
               sortBy := Some ''price'', sortOrder := Some ''asc'', status := Some ''active''\<rparr>)
            = Some (Obj kvs)
          \<and> map_of kvs = [''status'' \<mapsto> Str ''active'',
                 ''$or'' \<mapsto> Arr [Obj [(''price'', Obj [(''$gt'', Num 5 0)])],
                                 Obj [(''price'', Num 5 0),
                                      (''createdAt'', Obj [(''$gt'', Date 1700000000200)])]]])
   \<and> (\<exists>kvs. compile_filter plain_host
            (empty_query\<lparr>cursor := Some ''eyJuYW1lIjoiTGFwIGRlc2siLCJjcmVhdGVkQXQiOiIyMDIzLTExLTE0VDIyOjEzOjIwLjIwMFoifQ=='',
               sortBy := Some ''name'', sortOrder := Some ''desc'', category := Some ''furniture''\<rparr>)
            = Some (Obj kvs)
          \<and> map_of kvs = [''category'' \<mapsto> Str ''furniture'',
                 ''$or'' \<mapsto> Arr [Obj [(''name'', Obj [(''$lt'', Str ''Lap desk'')])],
                                 Obj [(''name'', Str ''Lap desk''),
                                      (''createdAt'', Obj [(''$lt'', Date 1700000000200)])]]])"
proof -
  let ?iso = "''2023-11-14T22:13:20.200Z''"
  have nd: "newDate plain_host (Str ?iso) = Some (Date 1700000000200)"
    by code_simp
  let ?t1 = "''eyJjcmVhdGVkQXQiOiIyMDIzLTExLTE0VDIyOjEzOjIwLjIwMFoifQ==''"
  let ?q1 = "empty_query\<lparr>cursor := Some ?t1, category := Some ''sports''\<rparr>"
  have d1: "decode_cursor plain_host ?t1 = Some (Obj [(''createdAt'', Str ?iso)])"
    by code_simp
  have b1: "build_filter plain_host ?q1 = Obj [(''category'', Str ''sports'')]"
    by code_simp
  have w1: "\<exists>kvs. compile_filter plain_host ?q1 = Some (Obj kvs)
          \<and> map_of kvs = [''category'' \<mapsto> Str ''sports'',
                          ''createdAt'' \<mapsto> Obj [(''$lt'', Date 1700000000200)]]"
    using cursor_predicate_compiled [where h = plain_host and q = "?q1" and tok = "?t1"
        and cursorValue = "Obj [(''createdAt'', Str ?iso)]"
        and fld = "''createdAt''" and cmp = "''$lt''" and v = "Str ?iso" and c = "Str ?iso"
        and d = "Date 1700000000200" and base = "[(''category'', Str ''sports'')]", OF _ _ d1 _ _ _ _ nd b1]
    by (simp add: empty_query_def)
  let ?t2 = "''eyJwcmljZSI6NSwiY3JlYXRlZEF0IjoiMjAyMy0xMS0xNFQyMjoxMzoyMC4yMDBaIn0=''"
  let ?q2 = "empty_query\<lparr>cursor := Some ?t2, sortBy := Some ''price'', sortOrder := Some ''asc'',
               status := Some ''active''\<rparr>"
  have d2: "decode_cursor plain_host ?t2 = Some (Obj [(''price'', Num 5 0), (''createdAt'', Str ?iso)])"
    by code_simp
  have b2: "build_filter plain_host ?q2 = Obj [(''status'', Str ''active'')]"
    by code_simp
  have w2: "\<exists>kvs. compile_filter plain_host ?q2 = Some (Obj kvs)
          \<and> map_of kvs = [''status'' \<mapsto> Str ''active'',
                 ''$or'' \<mapsto> Arr [Obj [(''price'', Obj [(''$gt'', Num 5 0)])],
                                 Obj [(''price'', Num 5 0),
                                      (''createdAt'', Obj [(''$gt'', Date 1700000000200)])]]]"
    using cursor_predicate_compiled [where h = plain_host and q = "?q2" and tok = "?t2"
        and cursorValue = "Obj [(''price'', Num 5 0), (''createdAt'', Str ?iso)]"
        and fld = "''price''" and cmp = "''$gt''" and v = "Num 5 0" and c = "Str ?iso"
        and d = "Date 1700000000200" and base = "[(''status'', Str ''active'')]", OF _ _ d2 _ _ _ _ nd b2]
    by (simp add: empty_query_def)
  let ?t3 = "''eyJuYW1lIjoiTGFwIGRlc2siLCJjcmVhdGVkQXQiOiIyMDIzLTExLTE0VDIyOjEzOjIwLjIwMFoifQ==''"
  let ?q3 = "empty_query\<lparr>cursor := Some ?t3, sortBy := Some ''name'', sortOrder := Some ''desc'',
               category := Some ''furniture''\<rparr>"
  have d3: "decode_cursor plain_host ?t3 = Some (Obj [(''name'', Str ''Lap desk''), (''createdAt'', Str ?iso)])"
    by code_simp
  have b3: "build_filter plain_host ?q3 = Obj [(''category'', Str ''furniture'')]"
    by code_simp
  have w3: "\<exists>kvs. compile_filter plain_host ?q3 = Some (Obj kvs)
          \<and> map_of kvs = [''category'' \<mapsto> Str ''furniture'',
                 ''$or'' \<mapsto> Arr [Obj [(''name'', Obj [(''$lt'', Str ''Lap desk'')])],
                                 Obj [(''name'', Str ''Lap desk''),
                                      (''createdAt'', Obj [(''$lt'', Date 1700000000200)])]]]"
    using cursor_predicate_compiled [where h = plain_host and q = "?q3" and tok = "?t3"
        and cursorValue = "Obj [(''name'', Str ''Lap desk''), (''createdAt'', Str ?iso)]"
        and fld = "''name''" and cmp = "''$lt''" and v = "Str ''Lap desk''" and c = "Str ?iso"
        and d = "Date 1700000000200" and base = "[(''category'', Str ''furniture'')]", OF _ _ d3 _ _ _ _ nd b3]
    by (simp add: empty_query_def)
  from w1 w2 w3 show ?thesis
    by (intro conjI)
qed

section \<open>The answers of the handler\<close>

text \<open>The handler answers 400 exactly when the cursor is refused.\<close>

lemma status_page_response: "status_code (page_response h q items) \<noteq> 400"
  by (simp add: page_response_def ok_page_def server_error_def split: option.splits)

lemma status_getItems: "(status_code (getItems h db q) = 400) = (compile_filter h q = None)"
  by (simp add: getItems_def server_error_def status_page_response split: option.splits sum.splits)

text \<open>
  Claim C1 does not hold of the program. The collection \<open>shop\<close> holds two items of price
  49.99, the Yoga Mat created after the Lap desk. Sorted by price, ascending, the query
  without a limit answers Yoga Mat, Lap desk, Office Chair, Laptop: the sort object is
  \<open>{price: 1, createdAt: -1}\<close>, so among equal prices the newest comes first. With
  \<open>limit=1\<close> the first page is the Yoga Mat; the page at its \<open>nextCursor\<close> is the Office
  Chair, and the page after that the Laptop, which ends the chain: the Lap desk is never
  answered. The cursor condition for an ascending sort asks for \<open>createdAt\<close> greater than
  the cursor's (lines 69--76 and 80--85) where the sort goes on to smaller ones (line 101).
\<close>

theorem ascending_ties_skip_item:
  "getItems plain_host (collection plain_host shop)
     (empty_query\<lparr>sortBy := Some ''price'', sortOrder := Some ''asc''\<rparr>)
   = ok_page [mat, lapdesk, chair, laptop] False Null (Num 10 0)
   \<and> getItems plain_host (collection plain_host shop)
     (empty_query\<lparr>sortBy := Some ''price'', sortOrder := Some ''asc'', limit := Some ''1''\<rparr>)
   = ok_page [mat] True
       (Str ''eyJwcmljZSI6NDkuOTksImNyZWF0ZWRBdCI6IjIwMjMtMTEtMTRUMjI6MTM6MjAuNDAwWiJ9'') (Num 1 0)
   \<and> getItems plain_host (collection plain_host shop)
     (empty_query\<lparr>sortBy := Some ''price'', sortOrder := Some ''asc'', limit := Some ''1'',
        cursor := Some ''eyJwcmljZSI6NDkuOTksImNyZWF0ZWRBdCI6IjIwMjMtMTEtMTRUMjI6MTM6MjAuNDAwWiJ9''\<rparr>)
   = ok_page [chair] True
       (Str ''eyJwcmljZSI6MTk5Ljk5LCJjcmVhdGVkQXQiOiIyMDIzLTExLTE0VDIyOjEzOjIwLjMwMFoifQ=='') (Num 1 0)
   \<and> getItems plain_host (collection plain_host shop)
     (empty_query\<lparr>sortBy := Some ''price'', sortOrder := Some ''asc'', limit := Some ''1'',
        cursor := Some ''eyJwcmljZSI6MTk5Ljk5LCJjcmVhdGVkQXQiOiIyMDIzLTExLTE0VDIyOjEzOjIwLjMwMFoifQ==''\<rparr>)
   = ok_page [laptop] False Null (Num 1 0)"
  by code_simp

text \<open>
  Claim C3 does not hold of the program. With \<open>sortBy=price\<close>, \<open>search=lap\<close> and the
  cursor \<open>{"price":999.99,"createdAt":"2023-11-14T22:13:20.100Z"}\<close>, the filter built
  from the parameters holds the two \<open>$regex\<close> clauses of the search under \<open>$or\<close>; the
  filter handed to the storage holds the cursor condition under \<open>$or\<close> and nothing
  else (line 62 assigns \<open>filter.$or\<close> again), and the page answered is the Office Chair,
  whose name does not contain \<open>lap\<close>.
\<close>

theorem search_dropped_by_cursor:
  "build_filter plain_host
     (empty_query\<lparr>sortBy := Some ''price'', search := Some ''lap'', limit := Some ''1'',
        cursor := Some ''eyJwcmljZSI6OTk5Ljk5LCJjcmVhdGVkQXQiOiIyMDIzLTExLTE0VDIyOjEzOjIwLjEwMFoifQ==''\<rparr>)
   = Obj [(''$or'', Arr [Obj [(''name'', Obj [(''$regex'', Str ''lap''), (''$options'', Str ''i'')])],
                        Obj [(''description'', Obj [(''$regex'', Str ''lap''), (''$options'', Str ''i'')])]])]
   \<and> compile_filter plain_host
     (empty_query\<lparr>sortBy := Some ''price'', search := Some ''lap'', limit := Some ''1'',
        cursor := Some ''eyJwcmljZSI6OTk5Ljk5LCJjcmVhdGVkQXQiOiIyMDIzLTExLTE0VDIyOjEzOjIwLjEwMFoifQ==''\<rparr>)
   = Some (Obj [(''$or'',
        Arr [Obj [(''price'', Obj [(''$lt'', Num 99999 2)])],
             Obj [(''price'', Num 99999 2), (''createdAt'', Obj [(''$lt'', Date 1700000000100)])]])])
   \<and> getItems plain_host (collection plain_host shop)
     (empty_query\<lparr>sortBy := Some ''price'', search := Some ''lap'', limit := Some ''1'',
        cursor := Some ''eyJwcmljZSI6OTk5Ljk5LCJjcmVhdGVkQXQiOiIyMDIzLTExLTE0VDIyOjEzOjIwLjEwMFoifQ==''\<rparr>)
   = ok_page [chair] True
       (Str ''eyJwcmljZSI6MTk5Ljk5LCJjcmVhdGVkQXQiOiIyMDIzLTExLTE0VDIyOjEzOjIwLjMwMFoifQ=='') (Num 1 0)"
  by code_simp

text \<open>
  Claim C6 does not hold of the program, where it speaks of the second page. With
  \<open>sortBy=price\<close>, \<open>search=lap\<close> and \<open>limit=1\<close>, two items of \<open>shop\<close> match the filter,
  the Laptop and the Lap desk, that is \<open>limit + 1\<close> items. The first page is the Laptop,
  with \<open>hasMore = true\<close>. The page at its \<open>nextCursor\<close> reports \<open>hasMore = true\<close> again,
  and holds the Office Chair: the cursor condition has replaced the search.
\<close>

theorem second_page_reports_more:
  "filter (matches plain_host (build_filter plain_host (empty_query\<lparr>sortBy := Some ''price'',
       search := Some ''lap'', limit := Some ''1''\<rparr>))) shop = [laptop, lapdesk]
   \<and> getItems plain_host (collection plain_host shop)
     (empty_query\<lparr>sortBy := Some ''price'', search := Some ''lap'', limit := Some ''1''\<rparr>)
   = ok_page [laptop] True
       (Str ''eyJwcmljZSI6OTk5Ljk5LCJjcmVhdGVkQXQiOiIyMDIzLTExLTE0VDIyOjEzOjIwLjEwMFoifQ=='') (Num 1 0)
   \<and> getItems plain_host (collection plain_host shop)
     (empty_query\<lparr>sortBy := Some ''price'', search := Some ''lap'', limit := Some ''1'',
        cursor := Some ''eyJwcmljZSI6OTk5Ljk5LCJjcmVhdGVkQXQiOiIyMDIzLTExLTE0VDIyOjEzOjIwLjEwMFoifQ==''\<rparr>)
   = ok_page [chair] True
       (Str ''eyJwcmljZSI6MTk5Ljk5LCJjcmVhdGVkQXQiOiIyMDIzLTExLTE0VDIyOjEzOjIwLjMwMFoifQ=='') (Num 1 0)"
  by code_simp

text \<open>
  Claim C4 does not hold of the program. The cursor \<open>e30=\<close> is the base64 form of \<open>{}\<close>,
  which holds no key. Reading \<open>createdAt\<close> gives \<open>undefined\<close>, and \<open>new Date(undefined)\<close>
  is an invalid date, not an exception: the cursor is not refused, the handler goes on to
  the query with the condition \<open>{createdAt: {$lt: Invalid Date}}\<close>, and whatever the
  storage does, the answer is not 400. The reference storage rejects the query, and the
  answer is 500. The same with \<open>sortBy=price\<close> and the cursor \<open>{"price":49.99}\<close>, which
  lacks \<open>createdAt\<close>.
\<close>

theorem cursor_without_keys_not_rejected:
  "compile_filter plain_host (empty_query\<lparr>cursor := Some ''e30=''\<rparr>)
     = Some (Obj [(''createdAt'', Obj [(''$lt'', InvalidDate)])])
   \<and> status_code (getItems plain_host db (empty_query\<lparr>cursor := Some ''e30=''\<rparr>)) \<noteq> 400
   \<and> status_code (getItems plain_host (collection plain_host shop)
        (empty_query\<lparr>cursor := Some ''e30=''\<rparr>)) = 500
   \<and> compile_filter plain_host
        (empty_query\<lparr>cursor := Some ''eyJwcmljZSI6NDkuOTl9'', sortBy := Some ''price''\<rparr>)
     = Some (Obj [(''$or'', Arr [Obj [(''price'', Obj [(''$lt'', Num 4999 2)])],
                                 Obj [(''price'', Num 4999 2),
                                      (''createdAt'', Obj [(''$lt'', InvalidDate)])]])])
   \<and> status_code (getItems plain_host db
        (empty_query\<lparr>cursor := Some ''eyJwcmljZSI6NDkuOTl9'', sortBy := Some ''price''\<rparr>)) \<noteq> 400"
proof -
  have c: "compile_filter plain_host (empty_query\<lparr>cursor := Some ''e30=''\<rparr>)
     = Some (Obj [(''createdAt'', Obj [(''$lt'', InvalidDate)])])"
    by code_simp
  have s: "status_code (getItems plain_host db (empty_query\<lparr>cursor := Some ''e30=''\<rparr>)) \<noteq> 400"
    using c by (simp add: status_getItems)
  have r: "status_code (getItems plain_host (collection plain_host shop)
        (empty_query\<lparr>cursor := Some ''e30=''\<rparr>)) = 500"
    by code_simp
  have c2: "compile_filter plain_host
        (empty_query\<lparr>cursor := Some ''eyJwcmljZSI6NDkuOTl9'', sortBy := Some ''price''\<rparr>)
     = Some (Obj [(''$or'', Arr [Obj [(''price'', Obj [(''$lt'', Num 4999 2)])],
                                 Obj [(''price'', Num 4999 2),
                                      (''createdAt'', Obj [(''$lt'', InvalidDate)])]])])"
    by code_simp
  have s2: "status_code (getItems plain_host db
        (empty_query\<lparr>cursor := Some ''eyJwcmljZSI6NDkuOTl9'', sortBy := Some ''price''\<rparr>)) \<noteq> 400"
    using c2 by (simp add: status_getItems)
  from c s r c2 s2 show ?thesis by blast
qed

section \<open>Requests that are not validated\<close>

text \<open>
  Against claim C7 as stated: \<open>limit=0\<close> is answered 200 with an empty page and
  \<open>hasMore = true\<close>, and \<open>limit=-1\<close> is answered 200 with all items but the last (the
  storage is asked for \<open>limit(0)\<close>, which is no limit, and \<open>slice(0, -1)\<close> drops the last).
\<close>

theorem nonpositive_limit_answered:
  "getItems plain_host (collection plain_host shop) (empty_query\<lparr>limit := Some ''0''\<rparr>)
     = ok_page [] True Null (Num 0 0)
   \<and> getItems plain_host (collection plain_host shop) (empty_query\<lparr>limit := Some ''-1''\<rparr>)
     = ok_page [mat, chair, lapdesk] True
         (Str ''eyJjcmVhdGVkQXQiOiIyMDIzLTExLTE0VDIyOjEzOjIwLjIwMFoifQ=='') (Num (- 1) 0)"
  by code_simp

text \<open>
  Claim C7, amended. The handler does not validate \<open>limit\<close>. For every request whose
  \<open>limit\<close> parameter parses to an integer \<open>n \<le> 0\<close> (above \<open>-2^53\<close>, so that \<open>n + 1\<close> is
  exact), and whose cursor is absent or accepted, the storage is queried with the limit
  \<open>n + 1\<close>, and the answer is the page built from its rows, or 500 if it rejects; it is
  never 400.
\<close>

theorem nonpositive_limit_not_rejected:
  assumes "limit q = Some s" and "parseInt h s = Num n 0"
    and "n \<le> 0" and "- 9007199254740992 < n"
    and "compile_filter h q = Some flt"
  shows "getItems h db q =
           (case db flt (build_sort q) (Num (n + 1) 0) of
              Inl msg \<Rightarrow> server_error msg
            | Inr items \<Rightarrow> page_response h q items)
         \<and> status_code (getItems h db q) \<noteq> 400"
  using assms by (simp add: status_getItems) (simp add: getItems_def limitNum_of_def)

text \<open>The theorem at \<open>limit=-1\<close>.\<close>

theorem nonpositive_limit_not_rejected_witness:
  "getItems plain_host (collection plain_host shop) (empty_query\<lparr>limit := Some ''-1''\<rparr>) =
     (case collection plain_host shop (Obj []) (Obj [(''createdAt'', Num (- 1) 0)]) (Num 0 0) of
        Inl msg \<Rightarrow> server_error msg
      | Inr items \<Rightarrow> page_response plain_host (empty_query\<lparr>limit := Some ''-1''\<rparr>) items)
   \<and> status_code (getItems plain_host (collection plain_host shop)
        (empty_query\<lparr>limit := Some ''-1''\<rparr>)) \<noteq> 400"
proof -
  let ?q = "empty_query\<lparr>limit := Some ''-1''\<rparr>"
  have h1: "limit ?q = Some ''-1''" by (simp add: empty_query_def)
  have h2: "parseInt plain_host ''-1'' = Num (- 1) 0" by code_simp
  have h3: "(- 1 :: int) \<le> 0" by simp
  have h4: "- 9007199254740992 < (- 1 :: int)" by simp
  have h5: "compile_filter plain_host ?q = Some (Obj [])" by code_simp
  have bs: "build_sort ?q = Obj [(''createdAt'', Num (- 1) 0)]" by code_simp
  note th = nonpositive_limit_not_rejected [OF h1 h2 h3 h4 h5, of "collection plain_host shop"]
  have a: "getItems plain_host (collection plain_host shop) ?q =
     (case collection plain_host shop (Obj []) (Obj [(''createdAt'', Num (- 1) 0)]) (Num 0 0) of
        Inl msg \<Rightarrow> server_error msg
      | Inr items \<Rightarrow> page_response plain_host ?q items)"
    using th [THEN conjunct1] unfolding bs by simp
  have b: "status_code (getItems plain_host (collection plain_host shop) ?q) \<noteq> 400"
    using th [THEN conjunct2] .
  from a b show ?thesis by (rule conjI)
qed

text \<open>
  Against claim C8 as stated: \<open>sortBy=colour\<close>, which is no path of the schema, is answered
  200 with a page, and the sort object handed to the storage is
  \<open>{colour: -1, createdAt: -1}\<close>.
\<close>

theorem unknown_sort_field_answered:
  "getItems plain_host (collection plain_host shop) (empty_query\<lparr>sortBy := Some ''colour''\<rparr>)
     = ok_page [mat, chair, lapdesk, laptop] False Null (Num 10 0)
   \<and> build_sort (empty_query\<lparr>sortBy := Some ''colour''\<rparr>)
     = Obj [(''colour'', Num (- 1) 0), (''createdAt'', Num (- 1) 0)]"
  by code_simp

text \<open>
  Claim C8, amended. The handler does not validate \<open>sortBy\<close>. For every request whose
  \<open>sortBy\<close> parameter \<open>f\<close> is no path of the schema (and is not \<open>__proto__\<close>, under which an
  assignment creates no property), and whose cursor is absent or accepted, the sort
  object handed to the storage has \<open>f\<close> as its first key, with the requested direction,
  and \<open>createdAt\<close>, descending, as its second; the answer is the page built from the rows
  of the storage, or 500 if it rejects; it is never 400.
\<close>

theorem unknown_sortBy_not_rejected:
  assumes "sortBy q = Some f" and "f \<notin> set item_paths" and "f \<noteq> ''__proto__''"
    and "compile_filter h q = Some flt"
  shows "build_sort q =
           Obj [(f, if sortOrder q = None \<or> sortOrder q = Some ''desc'' then Num (- 1) 0
                    else Num 1 0),
                (''createdAt'', Num (- 1) 0)]
         \<and> getItems h db q =
           (case db flt (build_sort q) (plus_one h (limitNum_of h q)) of
              Inl msg \<Rightarrow> server_error msg
            | Inr items \<Rightarrow> page_response h q items)
         \<and> status_code (getItems h db q) \<noteq> 400"
proof -
  from assms(2) have ne: "f \<noteq> ''createdAt''" by (auto simp: item_paths_def)
  have so: "(sortOrder_of q = ''desc'') = (sortOrder q = None \<or> sortOrder q = Some ''desc'')"
    by (simp add: sortOrder_of_def split: option.splits)
  have "build_sort q =
           Obj [(f, if sortOrder q = None \<or> sortOrder q = Some ''desc'' then Num (- 1) 0
                    else Num 1 0),
                (''createdAt'', Num (- 1) 0)]"
    using ne assms(1,3)
    by (simp add: build_sort_def sortBy_of_def so assign_def precedes_def not_index_createdAt)
  moreover have "getItems h db q =
           (case db flt (build_sort q) (plus_one h (limitNum_of h q)) of
              Inl msg \<Rightarrow> server_error msg
            | Inr items \<Rightarrow> page_response h q items)"
    using assms(4) by (simp add: getItems_def)
  moreover have "status_code (getItems h db q) \<noteq> 400"
    using assms(4) by (simp add: status_getItems)
  ultimately show ?thesis by blast
qed

text \<open>The theorem at \<open>sortBy=colour\<close>, ascending.\<close>

theorem unknown_sortBy_not_rejected_witness:
  "build_sort (empty_query\<lparr>sortBy := Some ''colour'', sortOrder := Some ''asc''\<rparr>) =
     Obj [(''colour'', Num 1 0), (''createdAt'', Num (- 1) 0)]
   \<and> status_code (getItems plain_host (collection plain_host shop)
        (empty_query\<lparr>sortBy := Some ''colour'', sortOrder := Some ''asc''\<rparr>)) \<noteq> 400"
proof -
  let ?q = "empty_query\<lparr>sortBy := Some ''colour'', sortOrder := Some ''asc''\<rparr>"
  have h1: "sortBy ?q = Some ''colour''" by (simp add: empty_query_def)
  have h2: "''colour'' \<notin> set item_paths" by (simp add: item_paths_def)
  have h3: "''colour'' \<noteq> ''__proto__''" by simp
  have h4: "compile_filter plain_host ?q = Some (Obj [])" by code_simp
  have so: "sortOrder ?q = Some ''asc''" by (simp add: empty_query_def)
  note th = unknown_sortBy_not_rejected [OF h1 h2 h3 h4, of "collection plain_host shop"]
  have a: "build_sort ?q = Obj [(''colour'', Num 1 0), (''createdAt'', Num (- 1) 0)]"
    using th [THEN conjunct1] unfolding so by simp
  have b: "status_code (getItems plain_host (collection plain_host shop) ?q) \<noteq> 400"
    using th [THEN conjunct2, THEN conjunct2] .
  from a b show ?thesis by (rule conjI)
qed


section \<open>The price bounds\<close>

text \<open>
  Against claim C9 as stated. The parameters of a query string are strings, and the string
  \<open>"0"\<close> is truthy: \<open>minPrice=0\<close> puts \<open>{price: {$gte: 0}}\<close> into the filter and
  \<open>maxPrice=0\<close> puts \<open>{price: {$lte: 0}}\<close>, where the request without them has the empty
  filter. On \<open>shop\<close>, \<open>maxPrice=0\<close> is answered with no item and the request without it
  with four.
\<close>

theorem zero_price_bound_applied:
  "build_filter plain_host (empty_query\<lparr>minPrice := Some ''0''\<rparr>) = Obj [(''price'', Obj [(''$gte'', Num 0 0)])]
   \<and> build_filter plain_host (empty_query\<lparr>maxPrice := Some ''0''\<rparr>) = Obj [(''price'', Obj [(''$lte'', Num 0 0)])]
   \<and> build_filter plain_host empty_query = Obj []
   \<and> getItems plain_host (collection plain_host shop) (empty_query\<lparr>maxPrice := Some ''0''\<rparr>)
       = ok_page [] False Null (Num 10 0)
   \<and> getItems plain_host (collection plain_host shop) empty_query
       = ok_page [mat, chair, lapdesk, laptop] False Null (Num 10 0)"
  by code_simp

text \<open>The filter, the sort and the page do not change when an empty price bound is
  removed.\<close>

lemma price_range_empty:
  "price_range h (q\<lparr>minPrice := Some []\<rparr>) = price_range h (q\<lparr>minPrice := None\<rparr>)"
  "price_range h (q\<lparr>maxPrice := Some []\<rparr>) = price_range h (q\<lparr>maxPrice := None\<rparr>)"
  by (simp_all add: price_range_def when_truthy_def)

lemma truthy_empty: "truthy (Some []) = truthy None"
  by (simp add: truthy_def)

lemma build_filter_empty_price:
  "build_filter h (q\<lparr>minPrice := Some []\<rparr>) = build_filter h (q\<lparr>minPrice := None\<rparr>)"
  "build_filter h (q\<lparr>maxPrice := Some []\<rparr>) = build_filter h (q\<lparr>maxPrice := None\<rparr>)"
  unfolding build_filter_def Let_def
  by (simp_all add: price_range_empty truthy_empty cong: if_cong)

lemma sort_params_price:
  "sortBy_of (q\<lparr>minPrice := a\<rparr>) = sortBy_of q"
  "sortBy_of (q\<lparr>maxPrice := a\<rparr>) = sortBy_of q"
  "sortOrder_of (q\<lparr>minPrice := a\<rparr>) = sortOrder_of q"
  "sortOrder_of (q\<lparr>maxPrice := a\<rparr>) = sortOrder_of q"
  by (simp_all add: sortBy_of_def sortOrder_of_def)

lemma compile_filter_empty_price:
  "compile_filter h (q\<lparr>minPrice := Some []\<rparr>) = compile_filter h (q\<lparr>minPrice := None\<rparr>)"
  "compile_filter h (q\<lparr>maxPrice := Some []\<rparr>) = compile_filter h (q\<lparr>maxPrice := None\<rparr>)"
  unfolding compile_filter_def build_filter_empty_price sort_params_price
  by simp_all

lemma build_sort_price:
  "build_sort (q\<lparr>minPrice := a\<rparr>) = build_sort q"
  "build_sort (q\<lparr>maxPrice := a\<rparr>) = build_sort q"
  by (simp_all add: build_sort_def sort_params_price)

lemma limitNum_price:
  "limitNum_of h (q\<lparr>minPrice := a\<rparr>) = limitNum_of h q"
  "limitNum_of h (q\<lparr>maxPrice := a\<rparr>) = limitNum_of h q"
  by (simp_all add: limitNum_of_def)

lemma page_items_price:
  "page_items h (q\<lparr>minPrice := a\<rparr>) items = page_items h q items"
  "page_items h (q\<lparr>maxPrice := a\<rparr>) items = page_items h q items"
  unfolding page_items_def limitNum_price by simp_all

lemma page_response_price:
  "page_response h (q\<lparr>minPrice := a\<rparr>) items = page_response h q items"
  "page_response h (q\<lparr>maxPrice := a\<rparr>) items = page_response h q items"
  unfolding page_response_def page_items_price limitNum_price sort_params_price by simp_all

text \<open>
  Claim C9, amended. The guard tests the truthiness of a string, so the one value of
  \<open>minPrice\<close> (and likewise of \<open>maxPrice\<close>) that behaves as if the parameter were absent
  is the empty string: the answers are the same. For every non-empty string, \<open>"0"\<close>
  included, the filter has the property \<open>price\<close>, and the bound \<open>$gte\<close> (resp. \<open>$lte\<close>) in
  it is \<open>Number\<close> of the string.
\<close>

theorem empty_price_parameter_ignored:
  "getItems h db (q\<lparr>minPrice := Some []\<rparr>) = getItems h db (q\<lparr>minPrice := None\<rparr>)
   \<and> getItems h db (q\<lparr>maxPrice := Some []\<rparr>) = getItems h db (q\<lparr>maxPrice := None\<rparr>)
   \<and> (\<exists>kvs. price_range h (q\<lparr>minPrice := Some (c # cs)\<rparr>) = Obj kvs
          \<and> map_of kvs ''$gte'' = Some (toNumber h (c # cs)))
   \<and> (\<exists>kvs. price_range h (q\<lparr>maxPrice := Some (c # cs)\<rparr>) = Obj kvs
          \<and> map_of kvs ''$lte'' = Some (toNumber h (c # cs)))
   \<and> (\<exists>kvs. build_filter h (q\<lparr>minPrice := Some (c # cs)\<rparr>) = Obj kvs
          \<and> map_of kvs ''price'' = Some (price_range h (q\<lparr>minPrice := Some (c # cs)\<rparr>)))
   \<and> (\<exists>kvs. build_filter h (q\<lparr>maxPrice := Some (c # cs)\<rparr>) = Obj kvs
          \<and> map_of kvs ''price'' = Some (price_range h (q\<lparr>maxPrice := Some (c # cs)\<rparr>)))"
proof -
  have a: "getItems h db (q\<lparr>minPrice := Some []\<rparr>) = getItems h db (q\<lparr>minPrice := None\<rparr>)"
    unfolding getItems_def compile_filter_empty_price page_response_price build_sort_price
      limitNum_price ..
  have b: "getItems h db (q\<lparr>maxPrice := Some []\<rparr>) = getItems h db (q\<lparr>maxPrice := None\<rparr>)"
    unfolding getItems_def compile_filter_empty_price page_response_price build_sort_price
      limitNum_price ..
  have c: "\<exists>kvs. price_range h (q\<lparr>minPrice := Some (c # cs)\<rparr>) = Obj kvs
          \<and> map_of kvs ''$gte'' = Some (toNumber h (c # cs))"
    by (simp add: price_range_def when_truthy_def map_of_assign split: option.splits)
  have d: "\<exists>kvs. price_range h (q\<lparr>maxPrice := Some (c # cs)\<rparr>) = Obj kvs
          \<and> map_of kvs ''$lte'' = Some (toNumber h (c # cs))"
    by (simp add: price_range_def when_truthy_def map_of_assign split: option.splits)
  have p: "\<exists>kvs. build_filter h q' = Obj kvs \<and> map_of kvs ''price'' = Some (price_range h q')"
    if "truthy (minPrice q') \<or> truthy (maxPrice q')" for q'
  proof -
    obtain k1 where f1: "when_truthy (category q') (\<lambda>s f. setprop f ''category'' (Str s)) (Obj []) = Obj k1"
      using when_truthy_object [of "\<lambda>s f. setprop f ''category'' (Str s)" "category q'" "[]"] by auto
    obtain k2 where f2: "when_truthy (status q') (\<lambda>s f. setprop f ''status'' (Str s)) (Obj k1) = Obj k2"
      using when_truthy_object [of "\<lambda>s f. setprop f ''status'' (Str s)" "status q'" k1] by auto
    have "build_filter h q' =
          when_truthy (search q') (\<lambda>s f. setprop f ''$or'' (search_clauses s))
            (Obj (assign ''price'' (price_range h q') k2))"
      unfolding build_filter_def Let_def f1 f2 using that by simp
    then show ?thesis
      by (simp add: when_truthy_def map_of_assign split: option.splits)
  qed
  have e: "\<exists>kvs. build_filter h (q\<lparr>minPrice := Some (c # cs)\<rparr>) = Obj kvs
          \<and> map_of kvs ''price'' = Some (price_range h (q\<lparr>minPrice := Some (c # cs)\<rparr>))"
    by (rule p) (simp add: truthy_def)
  have f: "\<exists>kvs. build_filter h (q\<lparr>maxPrice := Some (c # cs)\<rparr>) = Obj kvs
          \<and> map_of kvs ''price'' = Some (price_range h (q\<lparr>maxPrice := Some (c # cs)\<rparr>))"
    by (rule p) (simp add: truthy_def)
  from a b c d e f show ?thesis by blast
qed

end
